theory Spec2Isabelle
  imports Complex_Main
begin

section \<open>JSON values and the Go runtime\<close>

text \<open>
  \<^verbatim>\<open>encoding/json\<close> decodes a line into \<^verbatim>\<open>map[string]interface{}\<close>: a JSON number is a
  \<^verbatim>\<open>float64\<close>, an array a \<^verbatim>\<open>[]interface{}\<close>, an object a \<^verbatim>\<open>map[string]interface{}\<close>,
  \<^verbatim>\<open>null\<close> the nil interface. A map is kept as an association list that is read with
  \<open>map_of\<close>; the nil map and the empty map are both \<open>[]\<close> (the code only reads them).
  A finite \<^verbatim>\<open>float64\<close> is the real number it denotes.
\<close>

datatype json =
    JNull
  | JBool bool
  | JNum real
  | JStr string
  | JArr "json list"
  | JObj "(string \<times> json) list"

type_synonym json_map = "(string \<times> json) list"

text \<open>An instant of \<^verbatim>\<open>time.Time\<close>, as a number on the clock's scale.\<close>

type_synonym gotime = int

text \<open>The type assertions \<^verbatim>\<open>m[key].(string)\<close>, \<^verbatim>\<open>.(float64)\<close>, \<^verbatim>\<open>.(bool)\<close> with their \<^verbatim>\<open>ok\<close>
  flag: a missing key gives the nil interface, on which every assertion fails.\<close>

fun as_string :: "json option \<Rightarrow> string option" where
  "as_string (Some (JStr s)) = Some s"
| "as_string _ = None"

fun as_float64 :: "json option \<Rightarrow> real option" where
  "as_float64 (Some (JNum x)) = Some x"
| "as_float64 _ = None"

fun as_bool :: "json option \<Rightarrow> bool option" where
  "as_bool (Some (JBool b)) = Some b"
| "as_bool _ = None"

fun as_map :: "json option \<Rightarrow> json_map option" where
  "as_map (Some (JObj m)) = Some m"
| "as_map _ = None"

text \<open>The form \<^verbatim>\<open>v, _ := m[key].(T)\<close>: the zero value of \<^verbatim>\<open>T\<close> when the assertion fails.\<close>

definition string_or_zero :: "json_map \<Rightarrow> string \<Rightarrow> string" where
  "string_or_zero m key = (case as_string (map_of m key) of Some s \<Rightarrow> s | None \<Rightarrow> [])"

definition float64_or_zero :: "json_map \<Rightarrow> string \<Rightarrow> real" where
  "float64_or_zero m key = (case as_float64 (map_of m key) of Some x \<Rightarrow> x | None \<Rightarrow> 0)"

definition bool_or_zero :: "json_map \<Rightarrow> string \<Rightarrow> bool" where
  "bool_or_zero m key = (case as_bool (map_of m key) of Some b \<Rightarrow> b | None \<Rightarrow> False)"

text \<open>The conversion \<^verbatim>\<open>int(x)\<close> of a \<^verbatim>\<open>float64\<close> drops the fraction (towards zero); \<^verbatim>\<open>int\<close> has
  64 bits. Go leaves the result to the implementation when the truncated value does not fit;
  the model takes what amd64 gives there, the least \<^verbatim>\<open>int\<close>.\<close>

definition float64_to_int :: "real \<Rightarrow> int" where
  "float64_to_int x =
     (let t = (if x < 0 then \<lceil>x\<rceil> else \<lfloor>x\<rfloor>)
      in if - (2 ^ 63) \<le> t \<and> t < 2 ^ 63 then t else - (2 ^ 63))"

text \<open>
  What the code calls in the standard library and does not define itself, taken as
  parameters: \<^verbatim>\<open>json.Unmarshal\<close> of a line into a map (\<open>Inl\<close> the error's text),
  \<^verbatim>\<open>time.Parse(time.RFC3339, s)\<close>, \<^verbatim>\<open>fmt.Sprintf("%v", x)\<close>, and \<^verbatim>\<open>json.Marshal\<close> of the
  MCP server table. \<^verbatim>\<open>json.Unmarshal\<close> rejects what is not JSON and every JSON value that is
  neither an object nor \<^verbatim>\<open>null\<close>; the line \<^verbatim>\<open>null\<close> it accepts, leaving the map nil.
\<close>

record McpServerConfig =
  Transport :: "string list"
  Env :: json_map

record golib =
  json_Unmarshal :: "string \<Rightarrow> string + json_map"
  time_Parse_RFC3339 :: "string \<Rightarrow> gotime option"
  fmt_Sprintf_v :: "json \<Rightarrow> string"
  json_Marshal_mcp :: "(string \<times> McpServerConfig) list \<Rightarrow> string option"

section \<open>Errors (errors.go)\<close>

text \<open>A \<^verbatim>\<open>Cause\<close> is kept as the text of the wrapped error, \<open>None\<close> for a nil cause. The last
  constructor is the error of a cancelled context, \<^verbatim>\<open>ctx.Err()\<close>.\<close>

datatype sdk_error =
    CLINotFoundError string
  | CLIConnectionError string "string option"
  | ProcessError int string string
  | CLIJSONDecodeError string string
  | ContextError string

section \<open>Messages and content blocks (types.go)\<close>

datatype ContentBlock =
    TextBlock string
  | ToolUseBlock string string "json_map option"
  | ToolResultBlock string json bool

record AssistantMessage =
  am_ContentBlocks :: "ContentBlock list"
  am_ParentToolUseID :: "string option"
  am_SessionID :: string
  am_CreatedAt :: gotime

record UserMessage =
  um_ContentBlocks :: "ContentBlock list"
  um_ParentToolUseID :: "string option"
  um_SessionID :: string
  um_CreatedAt :: gotime

record MCPServer =
  mcp_Name :: string
  mcp_Status :: string

record SystemMessage =
  sm_Subtype :: string
  sm_APIKeySource :: "string option"
  sm_Cwd :: "string option"
  sm_SessionID :: string
  sm_Tools :: "string list"
  sm_MCPServers :: "MCPServer list"
  sm_Model :: "string option"
  sm_PermissionMode :: "string option"
  sm_CreatedAt :: gotime

record Usage =
  InputTokens :: int
  OutputTokens :: int

record ResultMessage =
  rm_Subtype :: string
  rm_DurationMs :: int
  rm_DurationAPIMs :: int
  rm_IsError :: bool
  rm_NumTurns :: int
  rm_SessionID :: string
  rm_TotalCostUSD :: "real option"
  rm_Usage :: "Usage option"
  rm_Result :: "string option"
  rm_CreatedAt :: gotime

datatype Message =
    MAssistant AssistantMessage
  | MUser UserMessage
  | MSystem SystemMessage
  | MResult ResultMessage

text \<open>The methods \<^verbatim>\<open>Content()\<close> and \<^verbatim>\<open>Timestamp()\<close> of the four message types.\<close>

fun Content :: "Message \<Rightarrow> ContentBlock list" where
  "Content (MAssistant m) = am_ContentBlocks m"
| "Content (MUser m) = um_ContentBlocks m"
| "Content (MSystem m) = []"
| "Content (MResult m) = (case rm_Result m of Some r \<Rightarrow> [TextBlock r] | None \<Rightarrow> [])"

fun Timestamp :: "Message \<Rightarrow> gotime" where
  "Timestamp (MAssistant m) = am_CreatedAt m"
| "Timestamp (MUser m) = um_CreatedAt m"
| "Timestamp (MSystem m) = sm_CreatedAt m"
| "Timestamp (MResult m) = rm_CreatedAt m"

text \<open>A message with its created-at time replaced: two messages agree in every field but
  the time exactly when they are equal after the same replacement.\<close>

fun withCreatedAt :: "gotime \<Rightarrow> Message \<Rightarrow> Message" where
  "withCreatedAt t (MAssistant m) = MAssistant (m\<lparr>am_CreatedAt := t\<rparr>)"
| "withCreatedAt t (MUser m) = MUser (m\<lparr>um_CreatedAt := t\<rparr>)"
| "withCreatedAt t (MSystem m) = MSystem (m\<lparr>sm_CreatedAt := t\<rparr>)"
| "withCreatedAt t (MResult m) = MResult (m\<lparr>rm_CreatedAt := t\<rparr>)"

section \<open>The protocol decoder (claude.go)\<close>

text \<open>\<^verbatim>\<open>parseTimestamp\<close> reads the clock first (\<open>now\<close> is that reading) and replaces it by the
  record's \<^verbatim>\<open>timestamp\<close> when that is a string that parses as RFC 3339.\<close>

definition parseTimestamp :: "golib \<Rightarrow> gotime \<Rightarrow> json_map \<Rightarrow> gotime" where
  "parseTimestamp L now rawMessage =
     (case as_string (map_of rawMessage ''timestamp'') of
        Some ts \<Rightarrow> (case time_Parse_RFC3339 L ts of Some parsed \<Rightarrow> parsed | None \<Rightarrow> now)
      | None \<Rightarrow> now)"

definition parseCommonFields :: "json_map \<Rightarrow> string \<times> string option" where
  "parseCommonFields rawMessage =
     (let sessionID = string_or_zero rawMessage ''session_id'';
          parentToolUseID = string_or_zero rawMessage ''parent_tool_use_id''
      in (sessionID, if parentToolUseID \<noteq> [] then Some parentToolUseID else None))"

definition parseStringPtr :: "json_map \<Rightarrow> string \<Rightarrow> string option" where
  "parseStringPtr rawMessage key =
     (case as_string (map_of rawMessage key) of
        Some v \<Rightarrow> (if v \<noteq> [] then Some v else None)
      | None \<Rightarrow> None)"

fun toolStrings :: "json list \<Rightarrow> string list" where
  "toolStrings [] = []"
| "toolStrings (JStr s # rest) = s # toolStrings rest"
| "toolStrings (_ # rest) = toolStrings rest"

definition parseToolsArray :: "json_map \<Rightarrow> string list" where
  "parseToolsArray rawMessage =
     (case map_of rawMessage ''tools'' of
        Some (JArr toolsArray) \<Rightarrow> toolStrings toolsArray
      | _ \<Rightarrow> [])"

fun serverEntries :: "json list \<Rightarrow> MCPServer list" where
  "serverEntries [] = []"
| "serverEntries (JObj serverMap # rest) =
     \<lparr>mcp_Name = string_or_zero serverMap ''name'',
      mcp_Status = string_or_zero serverMap ''status''\<rparr> # serverEntries rest"
| "serverEntries (_ # rest) = serverEntries rest"

definition parseMCPServers :: "json_map \<Rightarrow> MCPServer list" where
  "parseMCPServers rawMessage =
     (case map_of rawMessage ''mcp_servers'' of
        Some (JArr mcpArray) \<Rightarrow> serverEntries mcpArray
      | _ \<Rightarrow> [])"

definition parseUsage :: "json_map \<Rightarrow> Usage option" where
  "parseUsage rawMessage =
     (case map_of rawMessage ''usage'' of
        Some (JObj usageMap) \<Rightarrow>
          Some \<lparr>InputTokens = float64_to_int (float64_or_zero usageMap ''input_tokens''),
                OutputTokens = float64_to_int (float64_or_zero usageMap ''output_tokens'')\<rparr>
      | _ \<Rightarrow> None)"

text \<open>\<^verbatim>\<open>parseContentBlock\<close>: a string is a text block; a map is read by its \<^verbatim>\<open>type\<close>; a map
  with no string \<^verbatim>\<open>type\<close> is a text block when it has a string \<^verbatim>\<open>text\<close>; everything else is a
  \<^verbatim>\<open>CLIJSONDecodeError\<close>. A missing \<^verbatim>\<open>content\<close> of a tool result is the nil interface.\<close>

definition parseContentBlock :: "golib \<Rightarrow> json \<Rightarrow> sdk_error + ContentBlock" where
  "parseContentBlock L rawBlock =
     (case rawBlock of
        JObj blockMap \<Rightarrow>
          (case as_string (map_of blockMap ''type'') of
             None \<Rightarrow>
               (case as_string (map_of blockMap ''text'') of
                  Some text \<Rightarrow> Inr (TextBlock text)
                | None \<Rightarrow> Inl (CLIJSONDecodeError (fmt_Sprintf_v L rawBlock)
                                  ''missing content block type''))
           | Some blockType \<Rightarrow>
               (if blockType = ''text'' then
                  (case as_string (map_of blockMap ''text'') of
                     None \<Rightarrow> Inl (CLIJSONDecodeError (fmt_Sprintf_v L rawBlock)
                                  ''missing text in text block'')
                   | Some text \<Rightarrow> Inr (TextBlock text))
                else if blockType = ''tool_use'' then
                  Inr (ToolUseBlock (string_or_zero blockMap ''id'')
                         (string_or_zero blockMap ''name'')
                         (as_map (map_of blockMap ''input'')))
                else if blockType = ''tool_result'' then
                  Inr (ToolResultBlock (string_or_zero blockMap ''tool_use_id'')
                         (case map_of blockMap ''content'' of Some c \<Rightarrow> c | None \<Rightarrow> JNull)
                         (bool_or_zero blockMap ''is_error''))
                else Inl (CLIJSONDecodeError (fmt_Sprintf_v L rawBlock)
                            (''unknown content block type: '' @ blockType))))
      | JStr str \<Rightarrow> Inr (TextBlock str)
      | _ \<Rightarrow> Inl (CLIJSONDecodeError (fmt_Sprintf_v L rawBlock)
                 ''invalid content block format''))"

text \<open>The loop of \<^verbatim>\<open>parseContentBlocks\<close> over an array: the first element that fails ends
  it with that error and no blocks; otherwise each block is appended.\<close>

fun parseBlockArray ::
  "golib \<Rightarrow> json list \<Rightarrow> ContentBlock list \<Rightarrow> sdk_error + ContentBlock list" where
  "parseBlockArray L [] blocks = Inr blocks"
| "parseBlockArray L (rawBlock # rest) blocks =
     (case parseContentBlock L rawBlock of
        Inl err \<Rightarrow> Inl err
      | Inr block \<Rightarrow> parseBlockArray L rest (blocks @ [block]))"

definition parseContentBlocks :: "golib \<Rightarrow> json \<Rightarrow> sdk_error + ContentBlock list" where
  "parseContentBlocks L rawContent =
     (case rawContent of
        JStr content \<Rightarrow> Inr [TextBlock content]
      | JArr content \<Rightarrow> parseBlockArray L content []
      | JObj content \<Rightarrow>
          (case parseContentBlock L (JObj content) of
             Inl err \<Rightarrow> Inl err
           | Inr block \<Rightarrow> Inr [block])
      | _ \<Rightarrow> Inl (CLIJSONDecodeError (fmt_Sprintf_v L rawContent) ''invalid content format''))"

definition parseMessageContent :: "golib \<Rightarrow> json_map \<Rightarrow> sdk_error + ContentBlock list" where
  "parseMessageContent L rawMessage =
     (case map_of rawMessage ''message'' of
        Some (JObj msgMap) \<Rightarrow>
          (case map_of msgMap ''content'' of
             Some content \<Rightarrow> parseContentBlocks L content
           | None \<Rightarrow> Inr [])
      | _ \<Rightarrow> Inr [])"

definition parseSystemMessage :: "json_map \<Rightarrow> string \<Rightarrow> gotime \<Rightarrow> sdk_error + Message" where
  "parseSystemMessage rawMessage sessionID timestamp =
     Inr (MSystem
       \<lparr>sm_Subtype = string_or_zero rawMessage ''subtype'',
        sm_APIKeySource = parseStringPtr rawMessage ''apiKeySource'',
        sm_Cwd = parseStringPtr rawMessage ''cwd'',
        sm_SessionID = sessionID,
        sm_Tools = parseToolsArray rawMessage,
        sm_MCPServers = parseMCPServers rawMessage,
        sm_Model = parseStringPtr rawMessage ''model'',
        sm_PermissionMode = parseStringPtr rawMessage ''permissionMode'',
        sm_CreatedAt = timestamp\<rparr>)"

definition parseAssistantMessage ::
  "golib \<Rightarrow> json_map \<Rightarrow> string \<Rightarrow> string option \<Rightarrow> gotime \<Rightarrow> sdk_error + Message" where
  "parseAssistantMessage L rawMessage sessionID parentToolUseIDPtr timestamp =
     (case parseMessageContent L rawMessage of
        Inl err \<Rightarrow> Inl err
      | Inr contentBlocks \<Rightarrow>
          Inr (MAssistant
            \<lparr>am_ContentBlocks = contentBlocks,
             am_ParentToolUseID = parentToolUseIDPtr,
             am_SessionID = sessionID,
             am_CreatedAt = timestamp\<rparr>))"

definition parseUserMessage ::
  "golib \<Rightarrow> json_map \<Rightarrow> string \<Rightarrow> string option \<Rightarrow> gotime \<Rightarrow> sdk_error + Message" where
  "parseUserMessage L rawMessage sessionID parentToolUseIDPtr timestamp =
     (case parseMessageContent L rawMessage of
        Inl err \<Rightarrow> Inl err
      | Inr contentBlocks \<Rightarrow>
          Inr (MUser
            \<lparr>um_ContentBlocks = contentBlocks,
             um_ParentToolUseID = parentToolUseIDPtr,
             um_SessionID = sessionID,
             um_CreatedAt = timestamp\<rparr>))"

text \<open>\<^verbatim>\<open>parseResultMessage\<close>: the cost pointer is set only when the number read is greater
  than zero; the result pointer whenever the key \<^verbatim>\<open>result\<close> is present, as the \<^verbatim>\<open>%v\<close> rendering
  of its value.\<close>

definition parseResultMessage ::
  "golib \<Rightarrow> json_map \<Rightarrow> string \<Rightarrow> gotime \<Rightarrow> sdk_error + Message" where
  "parseResultMessage L rawMessage sessionID timestamp =
     (let totalCostUSD = float64_or_zero rawMessage ''total_cost_usd'' in
      Inr (MResult
        \<lparr>rm_Subtype = string_or_zero rawMessage ''subtype'',
         rm_DurationMs = float64_to_int (float64_or_zero rawMessage ''duration_ms''),
         rm_DurationAPIMs = float64_to_int (float64_or_zero rawMessage ''duration_api_ms''),
         rm_IsError = bool_or_zero rawMessage ''is_error'',
         rm_NumTurns = float64_to_int (float64_or_zero rawMessage ''num_turns''),
         rm_SessionID = sessionID,
         rm_TotalCostUSD = (if totalCostUSD > 0 then Some totalCostUSD else None),
         rm_Usage = parseUsage rawMessage,
         rm_Result = (case map_of rawMessage ''result'' of
                        Some result \<Rightarrow> Some (fmt_Sprintf_v L result)
                      | None \<Rightarrow> None),
         rm_CreatedAt = timestamp\<rparr>))"

definition parseMessage :: "golib \<Rightarrow> gotime \<Rightarrow> json_map \<Rightarrow> sdk_error + Message" where
  "parseMessage L now rawMessage =
     (case as_string (map_of rawMessage ''type'') of
        None \<Rightarrow> Inl (CLIJSONDecodeError (fmt_Sprintf_v L (JObj rawMessage))
                      ''missing or invalid message type'')
      | Some messageType \<Rightarrow>
          (let timestamp = parseTimestamp L now rawMessage;
               (sessionID, parentToolUseIDPtr) = parseCommonFields rawMessage
           in if messageType = ''system'' then
                parseSystemMessage rawMessage sessionID timestamp
              else if messageType = ''assistant'' then
                parseAssistantMessage L rawMessage sessionID parentToolUseIDPtr timestamp
              else if messageType = ''user'' then
                parseUserMessage L rawMessage sessionID parentToolUseIDPtr timestamp
              else if messageType = ''result'' then
                parseResultMessage L rawMessage sessionID timestamp
              else
                Inr (MSystem
                  \<lparr>sm_Subtype = messageType,
                   sm_APIKeySource = None,
                   sm_Cwd = None,
                   sm_SessionID = sessionID,
                   sm_Tools = [],
                   sm_MCPServers = [],
                   sm_Model = None,
                   sm_PermissionMode = None,
                   sm_CreatedAt = timestamp\<rparr>)))"

section \<open>Command-line arguments (claude.go, types.go)\<close>

text \<open>\<^verbatim>\<open>Options\<close>: a pointer field is an \<open>option\<close> (\<open>None\<close> for nil), a slice a list, the
  server table an association list. \<^verbatim>\<open>OutputFormat\<close> is a string type, so any string can
  stand there. The field \<^verbatim>\<open>AbortController\<close> is never read and is left out.\<close>

record Options =
  Model :: "string option"
  SystemPrompt :: "string option"
  AppendSystemPrompt :: "string option"
  MaxTurns :: "int option"
  Continue :: "bool option"
  Resume :: "string option"
  AllowedTools :: "string list"
  DisallowedTools :: "string list"
  MCPTools :: "string list"
  MCPServers :: "(string \<times> McpServerConfig) list"
  MCPConfig :: "string option"
  PermissionMode :: "string option"
  PermissionPromptTool :: "string option"
  DangerouslySkipPermissions :: "bool option"
  Cwd :: "string option"
  AddDir :: "string list"
  InputFormat :: "string option"
  OutputFormat :: "string option"
  Debug :: "bool option"
  Verbose :: "bool option"
  Executable :: "string option"

text \<open>The value \<^verbatim>\<open>&Options{}\<close> that replaces a nil pointer.\<close>

definition emptyOptions :: Options where
  "emptyOptions =
     \<lparr>Model = None, SystemPrompt = None, AppendSystemPrompt = None, MaxTurns = None,
      Continue = None, Resume = None, AllowedTools = [], DisallowedTools = [], MCPTools = [],
      MCPServers = [], MCPConfig = None, PermissionMode = None, PermissionPromptTool = None,
      DangerouslySkipPermissions = None, Cwd = None, AddDir = [], InputFormat = None,
      OutputFormat = None, Debug = None, Verbose = None, Executable = None\<rparr>"

text \<open>\<^verbatim>\<open>fmt.Sprintf("%d", n)\<close> and \<^verbatim>\<open>strings.Join(xs, ",")\<close>.\<close>

fun decimal :: "nat \<Rightarrow> string" where
  "decimal n =
     (if n < 10 then [char_of (48 + n)] else decimal (n div 10) @ [char_of (48 + n mod 10)])"

definition Sprintf_d :: "int \<Rightarrow> string" where
  "Sprintf_d n = (if n < 0 then CHR ''-'' # decimal (nat (- n)) else decimal (nat n))"

fun Join :: "string list \<Rightarrow> string \<Rightarrow> string" where
  "Join [] sep = []"
| "Join [x] sep = x"
| "Join (x # y # rest) sep = x @ sep @ Join (y # rest) sep"

text \<open>A non-nil pointer to a non-empty string adds the flag and the string.\<close>

definition flag_string :: "string \<Rightarrow> string option \<Rightarrow> string list" where
  "flag_string flag ptr =
     (case ptr of Some v \<Rightarrow> (if v \<noteq> [] then [flag, v] else []) | None \<Rightarrow> [])"

definition addPromptArgs :: "string list \<Rightarrow> Options \<Rightarrow> string list" where
  "addPromptArgs args options =
     args @ flag_string ''--system-prompt'' (SystemPrompt options)
          @ flag_string ''--append-system-prompt'' (AppendSystemPrompt options)
          @ (case MaxTurns options of Some n \<Rightarrow> [''--max-turns'', Sprintf_d n] | None \<Rightarrow> [])"

definition addModelAndToolArgs :: "string list \<Rightarrow> Options \<Rightarrow> string list" where
  "addModelAndToolArgs args options =
     args @ flag_string ''--model'' (Model options)
          @ (if length (AllowedTools options) > 0
             then [''--allowedTools'', Join (AllowedTools options) '','']  else [])
          @ (if length (DisallowedTools options) > 0
             then [''--disallowedTools'', Join (DisallowedTools options) '',''] else [])"

definition addSessionArgs :: "string list \<Rightarrow> Options \<Rightarrow> string list" where
  "addSessionArgs args options =
     args @ flag_string ''--resume'' (Resume options)
          @ (if Continue options = Some True then [''--continue''] else [])"

text \<open>The output format in force: \<^verbatim>\<open>stream-json\<close> unless the options name one
  (the first lines of \<^verbatim>\<open>addOutputArgs\<close> and of \<^verbatim>\<open>readOutput\<close>).\<close>

definition outputFormat :: "Options \<Rightarrow> string" where
  "outputFormat options =
     (case OutputFormat options of Some f \<Rightarrow> f | None \<Rightarrow> ''stream-json'')"

definition addOutputArgs :: "string list \<Rightarrow> Options \<Rightarrow> string list" where
  "addOutputArgs args options =
     (let args1 = args @ [''--output-format'', outputFormat options] in
      if Verbose options = Some True then args1 @ [''--verbose'']
      else if outputFormat options = ''stream-json'' then args1 @ [''--verbose'']
      else args1)"

definition addMCPArgs :: "golib \<Rightarrow> string list \<Rightarrow> Options \<Rightarrow> string list" where
  "addMCPArgs L args options =
     args @ flag_string ''--mcp-config'' (MCPConfig options)
          @ (if length (MCPServers options) > 0
             then (case json_Marshal_mcp L (MCPServers options) of
                     Some configJSON \<Rightarrow> [''--mcp-config'', configJSON]
                   | None \<Rightarrow> [])
             else [])"

definition addPermissionArgs :: "string list \<Rightarrow> Options \<Rightarrow> string list" where
  "addPermissionArgs args options =
     args @ flag_string ''--permission-mode'' (PermissionMode options)
          @ flag_string ''--permission-prompt-tool'' (PermissionPromptTool options)
          @ (if DangerouslySkipPermissions options = Some True
             then [''--dangerously-skip-permissions''] else [])"

definition addMiscArgs :: "string list \<Rightarrow> Options \<Rightarrow> string list" where
  "addMiscArgs args options =
     args @ (if Debug options = Some True then [''--debug''] else [])
          @ flag_string ''--input-format'' (InputFormat options)
          @ concat (map (\<lambda>dir. [''--add-dir'', dir]) (AddDir options))"

definition buildCommandArgs :: "golib \<Rightarrow> Options \<Rightarrow> string list" where
  "buildCommandArgs L options =
     (let args = [''--print''];
          args = addPromptArgs args options;
          args = addModelAndToolArgs args options;
          args = addSessionArgs args options;
          args = addOutputArgs args options;
          args = addMCPArgs L args options;
          args = addPermissionArgs args options
      in addMiscArgs args options)"

section \<open>The child process and its pipes\<close>

text \<open>
  What the operating system answers, taken as given: whether each pipe can be made and the
  process started, what a write of the prompt to standard input returns, what the output
  stream gives (to \<^verbatim>\<open>io.ReadAll\<close>, and token by token to a \<^verbatim>\<open>bufio.Scanner\<close> with the error the
  scanner ends on), what \<^verbatim>\<open>cmd.Wait()\<close> returns, and what \<^verbatim>\<open>io.ReadAll\<close> of the diagnostic
  stream returns, which may depend on when it is called: \<open>stderr_ReadAll cmd False\<close> is the
  read made before \<^verbatim>\<open>cmd.Wait()\<close> was called and \<open>stderr_ReadAll cmd True\<close> the read made
  after it has returned. (\<^verbatim>\<open>os/exec\<close> closes the pipes of \<^verbatim>\<open>StdoutPipe\<close> and \<^verbatim>\<open>StderrPipe\<close> when
  \<^verbatim>\<open>Wait\<close> sees the process exit, and asks that all reads be finished before \<^verbatim>\<open>Wait\<close> is
  called; a read of a closed pipe is an error.) An error is its text.
\<close>

datatype wait_outcome =
    WaitOk
  | WaitExitError int
  | WaitOtherError string

record process =
  StdinPipe_err :: "string option"
  StdoutPipe_err :: "string option"
  StderrPipe_err :: "string option"
  Start_err :: "string option"
  stdin_Write :: "string \<Rightarrow> string option"
  stdout_ReadAll :: "string + string"
  stdout_tokens :: "string list"
  stdout_scan_err :: "string option"
  stderr_ReadAll :: "bool \<Rightarrow> string + string"
  Wait_result :: wait_outcome

text \<open>The file system and the process table: \<^verbatim>\<open>os.Stat\<close> (does it succeed), \<^verbatim>\<open>exec.LookPath\<close>,
  the output of \<^verbatim>\<open>npm root -g\<close> run from a given npm, the path
  \<^verbatim>\<open>filepath.Join(strings.TrimSpace(out), "@anthropic-ai", "claude-code", "bin", "claude")\<close>,
  and the process that a command line and working directory start.\<close>

record world =
  os_Stat_ok :: "string \<Rightarrow> bool"
  exec_LookPath :: "string \<Rightarrow> string option"
  npm_root_g :: "string \<Rightarrow> string option"
  claude_under :: "string \<Rightarrow> string"
  exec_Command :: "string \<Rightarrow> string list \<Rightarrow> string option \<Rightarrow> process"

text \<open>A context: whether the \<^verbatim>\<open>select\<close> of the \<open>n\<close>-th delivery takes \<^verbatim>\<open>ctx.Done()\<close> rather
  than the send, and the text of \<^verbatim>\<open>ctx.Err()\<close>.\<close>

record go_context =
  ctx_Done_at :: "nat \<Rightarrow> bool"
  ctx_Err :: string

fun firstLookPath :: "world \<Rightarrow> string list \<Rightarrow> string option" where
  "firstLookPath W [] = None"
| "firstLookPath W (candidate # rest) =
     (case exec_LookPath W candidate of
        Some path \<Rightarrow> Some path
      | None \<Rightarrow> firstLookPath W rest)"

definition findCLIExecutable :: "world \<Rightarrow> string option \<Rightarrow> sdk_error + string" where
  "findCLIExecutable W customPath =
     (case (case customPath of Some p \<Rightarrow> (if p \<noteq> [] then Some p else None) | None \<Rightarrow> None) of
        Some p \<Rightarrow> (if os_Stat_ok W p then Inr p else Inl (CLINotFoundError p))
      | None \<Rightarrow>
        (case firstLookPath W [''claude'', ''npx @anthropic-ai/claude-code''] of
           Some path \<Rightarrow> Inr path
         | None \<Rightarrow>
             (case exec_LookPath W ''npm'' of
                Some npmPath \<Rightarrow>
                  (case npm_root_g W npmPath of
                     Some output \<Rightarrow>
                       (if os_Stat_ok W (claude_under W output)
                        then Inr (claude_under W output)
                        else Inl (CLINotFoundError []))
                   | None \<Rightarrow> Inl (CLINotFoundError []))
              | None \<Rightarrow> Inl (CLINotFoundError []))))"

definition setupCommand :: "world \<Rightarrow> golib \<Rightarrow> Options \<Rightarrow> sdk_error + process" where
  "setupCommand W L options =
     (case findCLIExecutable W (Executable options) of
        Inl err \<Rightarrow> Inl err
      | Inr cliPath \<Rightarrow> Inr (exec_Command W cliPath (buildCommandArgs L options) (Cwd options)))"

definition createPipes :: "process \<Rightarrow> sdk_error option" where
  "createPipes cmd =
     (case StdinPipe_err cmd of
        Some err \<Rightarrow> Some (CLIConnectionError ''failed to create stdin pipe'' (Some err))
      | None \<Rightarrow>
     (case StdoutPipe_err cmd of
        Some err \<Rightarrow> Some (CLIConnectionError ''failed to create stdout pipe'' (Some err))
      | None \<Rightarrow>
     (case StderrPipe_err cmd of
        Some err \<Rightarrow> Some (CLIConnectionError ''failed to create stderr pipe'' (Some err))
      | None \<Rightarrow> None)))"

section \<open>Reading the output\<close>

text \<open>The clock is read once for each message built; \<open>clock n\<close> is the reading while the
  \<open>n\<close>-th token of the output is handled (the text reader takes \<open>clock 0\<close>).\<close>

definition readTextOutput :: "(nat \<Rightarrow> gotime) \<Rightarrow> process \<Rightarrow> sdk_error + Message list" where
  "readTextOutput clock cmd =
     (case stdout_ReadAll cmd of
        Inl err \<Rightarrow> Inl (CLIConnectionError ''error reading text output'' (Some err))
      | Inr content \<Rightarrow>
          Inr [MResult
                 \<lparr>rm_Subtype = ''text_output'', rm_DurationMs = 0, rm_DurationAPIMs = 0,
                  rm_IsError = False, rm_NumTurns = 0, rm_SessionID = ''text_output_session'',
                  rm_TotalCostUSD = None, rm_Usage = None, rm_Result = Some content,
                  rm_CreatedAt = clock 0\<rparr>])"

text \<open>The scanner loop of \<^verbatim>\<open>readMessages\<close>: \<open>i\<close> counts the tokens, \<open>messages\<close> is the slice
  built so far. An empty line is skipped; a line that does not unmarshal ends the loop with
  a \<^verbatim>\<open>CLIJSONDecodeError\<close> holding the line; a map that does not parse ends it with the
  parser's error.\<close>

fun readLoop ::
  "golib \<Rightarrow> (nat \<Rightarrow> gotime) \<Rightarrow> string list \<Rightarrow> nat \<Rightarrow> Message list \<Rightarrow> sdk_error + Message list"
where
  "readLoop L clock [] i messages = Inr messages"
| "readLoop L clock (line # rest) i messages =
     (if line = [] then readLoop L clock rest (Suc i) messages
      else
        (case json_Unmarshal L line of
           Inl err \<Rightarrow> Inl (CLIJSONDecodeError line err)
         | Inr rawMessage \<Rightarrow>
             (case parseMessage L (clock i) rawMessage of
                Inl err \<Rightarrow> Inl err
              | Inr message \<Rightarrow> readLoop L clock rest (Suc i) (messages @ [message]))))"

definition readMessages ::
  "golib \<Rightarrow> (nat \<Rightarrow> gotime) \<Rightarrow> process \<Rightarrow> sdk_error + Message list" where
  "readMessages L clock cmd =
     (case readLoop L clock (stdout_tokens cmd) 0 [] of
        Inl err \<Rightarrow> Inl err
      | Inr messages \<Rightarrow>
          (case stdout_scan_err cmd of
             Some err \<Rightarrow> Inl (CLIConnectionError ''error reading CLI output'' (Some err))
           | None \<Rightarrow> Inr messages))"

definition readOutput ::
  "golib \<Rightarrow> (nat \<Rightarrow> gotime) \<Rightarrow> process \<Rightarrow> Options \<Rightarrow> sdk_error + Message list" where
  "readOutput L clock cmd options =
     (if outputFormat options = ''text'' then readTextOutput clock cmd
      else readMessages L clock cmd)"

text \<open>The text put into a \<^verbatim>\<open>ProcessError\<close>: what \<^verbatim>\<open>io.ReadAll(stderr)\<close> returned, or a fixed
  text when that read failed; \<open>waited\<close> tells whether \<^verbatim>\<open>cmd.Wait()\<close> has returned by then.\<close>

definition stderrText :: "process \<Rightarrow> bool \<Rightarrow> string" where
  "stderrText cmd waited =
     (case stderr_ReadAll cmd waited of
        Inr stderrBytes \<Rightarrow> stderrBytes
      | Inl readErr \<Rightarrow> ''failed to read stderr'')"

text \<open>\<^verbatim>\<open>handleReadError\<close> does not look at the error it is given; it runs before any
  \<^verbatim>\<open>cmd.Wait()\<close>.\<close>

definition handleReadError :: "sdk_error \<Rightarrow> process \<Rightarrow> sdk_error" where
  "handleReadError err cmd = ProcessError (- 1) (stderrText cmd False) []"

definition waitForCommand :: "process \<Rightarrow> sdk_error option" where
  "waitForCommand cmd =
     (case Wait_result cmd of
        WaitOk \<Rightarrow> None
      | WaitExitError exitCode \<Rightarrow> Some (ProcessError exitCode (stderrText cmd True) [])
      | WaitOtherError err \<Rightarrow> Some (CLIConnectionError ''CLI process failed'' (Some err)))"

section \<open>Batch queries\<close>

text \<open>\<^verbatim>\<open>Query\<close> returns a slice and an error; the pair is both. In the branch of a failed
  write the \<^verbatim>\<open>Cause\<close> is the variable \<^verbatim>\<open>err\<close> of the enclosing scope, which is nil there.
  The call of \<^verbatim>\<open>os.Setenv\<close> changes the environment of the calling process only and has no
  part in the result.\<close>

definition Query ::
  "world \<Rightarrow> golib \<Rightarrow> (nat \<Rightarrow> gotime) \<Rightarrow> string \<Rightarrow> Options option
     \<Rightarrow> Message list \<times> sdk_error option" where
  "Query W L clock prompt optionsPtr =
     (let options = (case optionsPtr of None \<Rightarrow> emptyOptions | Some opts \<Rightarrow> opts) in
      case setupCommand W L options of
        Inl err \<Rightarrow> ([], Some err)
      | Inr cmd \<Rightarrow>
     (case createPipes cmd of
        Some err \<Rightarrow> ([], Some err)
      | None \<Rightarrow>
     (case Start_err cmd of
        Some err \<Rightarrow> ([], Some (CLIConnectionError ''failed to start Claude CLI'' (Some err)))
      | None \<Rightarrow>
     (case stdin_Write cmd prompt of
        Some writeErr \<Rightarrow>
          ([], Some (CLIConnectionError ''failed to write prompt to stdin'' None))
      | None \<Rightarrow>
     (case readOutput L clock cmd options of
        Inl err \<Rightarrow> ([], Some (handleReadError err cmd))
      | Inr messages \<Rightarrow> (messages, waitForCommand cmd))))))"

definition QueryWithRequest ::
  "world \<Rightarrow> golib \<Rightarrow> (nat \<Rightarrow> gotime) \<Rightarrow> string \<times> Options option
     \<Rightarrow> Message list \<times> sdk_error option" where
  "QueryWithRequest W L clock request = Query W L clock (fst request) (snd request)"

section \<open>Streaming queries\<close>

text \<open>The result of a streaming query is what was sent on the message channel and on the
  error channel before both were closed; no run sends more than one error.\<close>

definition prepareStreamOptions :: "Options \<Rightarrow> Options" where
  "prepareStreamOptions options = options\<lparr>OutputFormat := Some ''stream-json''\<rparr>"

definition setupStreamCommand :: "world \<Rightarrow> golib \<Rightarrow> Options \<Rightarrow> sdk_error + process" where
  "setupStreamCommand W L options =
     (case findCLIExecutable W (Executable options) of
        Inl err \<Rightarrow> Inl err
      | Inr cliPath \<Rightarrow> Inr (exec_Command W cliPath (buildCommandArgs L options) (Cwd options)))"

definition createStreamPipes :: "process \<Rightarrow> sdk_error option" where
  "createStreamPipes cmd =
     (case StdinPipe_err cmd of
        Some err \<Rightarrow> Some (CLIConnectionError ''failed to create stdin pipe'' (Some err))
      | None \<Rightarrow>
     (case StdoutPipe_err cmd of
        Some err \<Rightarrow> Some (CLIConnectionError ''failed to create stdout pipe'' (Some err))
      | None \<Rightarrow>
     (case StderrPipe_err cmd of
        Some err \<Rightarrow> Some (CLIConnectionError ''failed to create stderr pipe'' (Some err))
      | None \<Rightarrow> None)))"

text \<open>\<^verbatim>\<open>sendPrompt\<close> writes the prompt and drops both results of the write; it returns
  nothing and has no channel to report on.\<close>

definition sendPrompt :: "process \<Rightarrow> string \<Rightarrow> unit" where
  "sendPrompt cmd prompt = (case stdin_Write cmd prompt of Some writeErr \<Rightarrow> () | None \<Rightarrow> ())"

text \<open>The loop of \<^verbatim>\<open>streamMessages\<close>: \<open>sent\<close> is what the message channel has received. The
  result is \<open>sent\<close> with the error put on the error channel, if any.\<close>

fun streamLoop ::
  "golib \<Rightarrow> (nat \<Rightarrow> gotime) \<Rightarrow> go_context \<Rightarrow> string list \<Rightarrow> nat \<Rightarrow> Message list
     \<Rightarrow> Message list \<times> sdk_error option"
where
  "streamLoop L clock ctx [] i sent = (sent, None)"
| "streamLoop L clock ctx (line # rest) i sent =
     (if line = [] then streamLoop L clock ctx rest (Suc i) sent
      else
        (case json_Unmarshal L line of
           Inl err \<Rightarrow> (sent, Some (CLIJSONDecodeError line err))
         | Inr rawMessage \<Rightarrow>
             (case parseMessage L (clock i) rawMessage of
                Inl err \<Rightarrow> (sent, Some err)
              | Inr message \<Rightarrow>
                  (if ctx_Done_at ctx (length sent) then (sent, Some (ContextError (ctx_Err ctx)))
                   else streamLoop L clock ctx rest (Suc i) (sent @ [message])))))"

text \<open>\<^verbatim>\<open>streamMessages\<close> returns whether the stream ended without an error.\<close>

definition streamMessages ::
  "golib \<Rightarrow> (nat \<Rightarrow> gotime) \<Rightarrow> go_context \<Rightarrow> process
     \<Rightarrow> Message list \<times> sdk_error option \<times> bool" where
  "streamMessages L clock ctx cmd =
     (case streamLoop L clock ctx (stdout_tokens cmd) 0 [] of
        (sent, Some err) \<Rightarrow> (sent, Some err, False)
      | (sent, None) \<Rightarrow>
          (case stdout_scan_err cmd of
             Some err \<Rightarrow>
               (sent, Some (CLIConnectionError ''error reading CLI output'' (Some err)), False)
           | None \<Rightarrow> (sent, None, True)))"

definition waitForStreamCommand :: "process \<Rightarrow> sdk_error option" where
  "waitForStreamCommand cmd =
     (case Wait_result cmd of
        WaitOk \<Rightarrow> None
      | WaitExitError exitCode \<Rightarrow> Some (ProcessError exitCode (stderrText cmd True) [])
      | WaitOtherError err \<Rightarrow> Some (CLIConnectionError ''CLI process failed'' (Some err)))"

definition QueryStream ::
  "world \<Rightarrow> golib \<Rightarrow> (nat \<Rightarrow> gotime) \<Rightarrow> go_context \<Rightarrow> string \<Rightarrow> Options option
     \<Rightarrow> Message list \<times> sdk_error option" where
  "QueryStream W L clock ctx prompt optionsPtr =
     (let options = (case optionsPtr of None \<Rightarrow> emptyOptions | Some opts \<Rightarrow> opts);
          streamOptions = prepareStreamOptions options
      in
      case setupStreamCommand W L streamOptions of
        Inl err \<Rightarrow> ([], Some err)
      | Inr cmd \<Rightarrow>
     (case createStreamPipes cmd of
        Some err \<Rightarrow> ([], Some err)
      | None \<Rightarrow>
     (case Start_err cmd of
        Some err \<Rightarrow> ([], Some (CLIConnectionError ''failed to start Claude CLI'' (Some err)))
      | None \<Rightarrow>
     (let written = sendPrompt cmd prompt in
      case streamMessages L clock ctx cmd of
        (sent, err, ok) \<Rightarrow>
          (if \<not> ok then (sent, err) else (sent, waitForStreamCommand cmd))))))"

definition QueryStreamWithRequest ::
  "world \<Rightarrow> golib \<Rightarrow> (nat \<Rightarrow> gotime) \<Rightarrow> go_context \<Rightarrow> string \<times> Options option
     \<Rightarrow> Message list \<times> sdk_error option" where
  "QueryStreamWithRequest W L clock ctx request =
     QueryStream W L clock ctx (fst request) (snd request)"

section \<open>A sample runtime for the worked instances\<close>

text \<open>A stand-in for the library on a few inputs: the two lines of the specification's
  scenario unmarshal to their maps, the line \<^verbatim>\<open>null\<close> to the nil map, and every other line is
  rejected; one timestamp parses; a string renders as itself under \<^verbatim>\<open>%v\<close>.\<close>

fun sample_Sprintf_v :: "json \<Rightarrow> string" where
  "sample_Sprintf_v (JStr s) = s"
| "sample_Sprintf_v (JBool b) = (if b then ''true'' else ''false'')"
| "sample_Sprintf_v JNull = ''<nil>''"
| "sample_Sprintf_v _ = ''<value>''"

definition sample_Unmarshal :: \<open>string \<Rightarrow> string + json_map\<close> where
  \<open>sample_Unmarshal line =
     (if line = ''{"type":"assistant","session_id":"s1","message":{"content":"hi"}}'' then
        Inr [(''type'', JStr ''assistant''), (''session_id'', JStr ''s1''),
             (''message'', JObj [(''content'', JStr ''hi'')])]
      else if line = ''{"type":"result","session_id":"s1","is_error":false,"num_turns":1}'' then
        Inr [(''type'', JStr ''result''), (''session_id'', JStr ''s1''),
             (''is_error'', JBool False), (''num_turns'', JNum 1)]
      else if line = ''null'' then Inr []
      else Inl ''invalid character'')\<close>

definition sample_lib :: golib where
  "sample_lib =
     \<lparr>json_Unmarshal = sample_Unmarshal,
      time_Parse_RFC3339 = (\<lambda>s. if s = ''2024-01-01T00:00:00Z'' then Some 1704067200 else None),
      fmt_Sprintf_v = sample_Sprintf_v,
      json_Marshal_mcp = (\<lambda>servers. None)\<rparr>"

text \<open>A process whose pipes open, that starts, takes the prompt, prints the two lines and
  exits with status 0; the same process when it writes \<^verbatim>\<open>auth failed\<close> to its diagnostic
  stream and exits with status 1; and a world where \<^verbatim>\<open>claude\<close> is on the path and starts
  the process given. The diagnostic stream can be read until \<^verbatim>\<open>cmd.Wait()\<close> has returned.\<close>

definition sample_process :: \<open>process\<close> where
  \<open>sample_process =
     \<lparr>StdinPipe_err = None, StdoutPipe_err = None, StderrPipe_err = None, Start_err = None,
      stdin_Write = (\<lambda>prompt. None),
      stdout_ReadAll = Inr ''hello'',
      stdout_tokens =
        [''{"type":"assistant","session_id":"s1","message":{"content":"hi"}}'',
         ''{"type":"result","session_id":"s1","is_error":false,"num_turns":1}''],
      stdout_scan_err = None,
      stderr_ReadAll = (\<lambda>waited. if waited then Inl ''file already closed'' else Inr []),
      Wait_result = WaitOk\<rparr>\<close>

definition failing_process :: process where
  "failing_process =
     sample_process
       \<lparr>stderr_ReadAll :=
          (\<lambda>waited. if waited then Inl ''file already closed'' else Inr ''auth failed''),
        Wait_result := WaitExitError 1\<rparr>"

definition sample_world :: "process \<Rightarrow> world" where
  "sample_world cmd =
     \<lparr>os_Stat_ok = (\<lambda>path. False),
      exec_LookPath = (\<lambda>name. if name = ''claude'' then Some ''/usr/bin/claude'' else None),
      npm_root_g = (\<lambda>npm. None),
      claude_under = (\<lambda>out. out),
      exec_Command = (\<lambda>path args dir. cmd)\<rparr>"

definition sample_context :: go_context where
  "sample_context = \<lparr>ctx_Done_at = (\<lambda>n. False), ctx_Err = ''context canceled''\<rparr>"

text \<open>The two messages that the lines of \<open>sample_process\<close> decode to, built at the clock
  readings \<open>t\<close>.\<close>

definition sample_assistant :: "gotime \<Rightarrow> Message" where
  "sample_assistant t =
     MAssistant \<lparr>am_ContentBlocks = [TextBlock ''hi''], am_ParentToolUseID = None,
                 am_SessionID = ''s1'', am_CreatedAt = t\<rparr>"

definition sample_result :: "gotime \<Rightarrow> Message" where
  "sample_result t =
     MResult \<lparr>rm_Subtype = [], rm_DurationMs = 0, rm_DurationAPIMs = 0, rm_IsError = False,
              rm_NumTurns = 1, rm_SessionID = ''s1'', rm_TotalCostUSD = None, rm_Usage = None,
              rm_Result = None, rm_CreatedAt = t\<rparr>"

section \<open>Unfolding rules\<close>

lemmas sample_defs =
  sample_lib_def sample_Unmarshal_def sample_process_def failing_process_def sample_world_def
  sample_context_def sample_assistant_def sample_result_def

lemmas decoder_defs =
  parseMessage_def parseTimestamp_def parseCommonFields_def parseSystemMessage_def
  parseAssistantMessage_def parseUserMessage_def parseResultMessage_def parseMessageContent_def
  parseContentBlocks_def parseContentBlock_def parseStringPtr_def parseToolsArray_def
  parseMCPServers_def parseUsage_def string_or_zero_def float64_or_zero_def bool_or_zero_def
  float64_to_int_def

lemmas query_defs =
  Query_def QueryStream_def setupCommand_def setupStreamCommand_def prepareStreamOptions_def
  findCLIExecutable_def createPipes_def createStreamPipes_def readOutput_def readMessages_def
  readTextOutput_def streamMessages_def handleReadError_def waitForCommand_def
  waitForStreamCommand_def stderrText_def outputFormat_def emptyOptions_def sendPrompt_def

section \<open>Every decoder failure is a JSON decode error\<close>

lemma parseContentBlock_error:
  "parseContentBlock L x = Inl e \<Longrightarrow> \<exists>d c. e = CLIJSONDecodeError d c"
  by (auto simp: parseContentBlock_def split: json.splits option.splits if_splits)

lemma parseBlockArray_error:
  "parseBlockArray L xs acc = Inl e \<Longrightarrow> \<exists>d c. e = CLIJSONDecodeError d c"
  by (induction xs arbitrary: acc) (auto split: sum.splits dest: parseContentBlock_error)

lemma parseContentBlocks_error:
  "parseContentBlocks L x = Inl e \<Longrightarrow> \<exists>d c. e = CLIJSONDecodeError d c"
  by (auto simp: parseContentBlocks_def split: json.splits sum.splits
      dest: parseContentBlock_error parseBlockArray_error)

lemma parseMessageContent_error:
  "parseMessageContent L raw = Inl e \<Longrightarrow> \<exists>d c. e = CLIJSONDecodeError d c"
  by (auto simp: parseMessageContent_def split: json.splits option.splits
      dest: parseContentBlocks_error)

lemma parseMessage_error:
  "parseMessage L now raw = Inl e \<Longrightarrow> \<exists>d c. e = CLIJSONDecodeError d c"
  by (auto simp: parseMessage_def parseSystemMessage_def parseAssistantMessage_def
      parseUserMessage_def parseResultMessage_def Let_def
      split: option.splits if_splits prod.splits sum.splits dest: parseMessageContent_error)

lemma parseMessage_fails_iff:
  "(\<exists>e. parseMessage L now raw = Inl e) \<longleftrightarrow>
     (as_string (map_of raw ''type'') = None \<or>
      (as_string (map_of raw ''type'') = Some ''assistant'' \<or>
       as_string (map_of raw ''type'') = Some ''user'') \<and>
      (\<exists>e. parseMessageContent L raw = Inl e))"
  by (auto simp: parseMessage_def parseSystemMessage_def parseAssistantMessage_def
      parseUserMessage_def parseResultMessage_def Let_def
      split: option.splits if_splits prod.splits sum.splits)

lemma parseMessage_content_failure:
  assumes "as_string (map_of raw ''type'') = Some t" and "t = ''assistant'' \<or> t = ''user''"
    and "parseMessageContent L raw = Inl e"
  shows "parseMessage L now raw = Inl e"
  using assms
  by (auto simp: parseMessage_def parseAssistantMessage_def parseUserMessage_def Let_def
      split: prod.splits)

section \<open>The type discriminator\<close>

text \<open>
  C1 (as amended). A map whose \<^verbatim>\<open>type\<close> is missing or not a string fails with a
  \<^verbatim>\<open>CLIJSONDecodeError\<close>. \<^verbatim>\<open>parseMessage\<close> fails in exactly two cases: that one, and an
  \<^verbatim>\<open>assistant\<close> or \<^verbatim>\<open>user\<close> record whose content blocks do not parse; every failure is a
  \<^verbatim>\<open>CLIJSONDecodeError\<close>. A \<^verbatim>\<open>type\<close> that is a string other than \<^verbatim>\<open>system\<close>, \<^verbatim>\<open>assistant\<close>,
  \<^verbatim>\<open>user\<close> and \<^verbatim>\<open>result\<close> never fails: the result is a system message whose subtype is that
  string.
\<close>

theorem parseMessage_type_discriminator:
  "(as_string (map_of raw ''type'') = None \<longrightarrow>
      parseMessage L now raw =
        Inl (CLIJSONDecodeError (fmt_Sprintf_v L (JObj raw)) ''missing or invalid message type''))
   \<and> ((\<exists>e. parseMessage L now raw = Inl e) \<longleftrightarrow>
        (as_string (map_of raw ''type'') = None \<or>
         (as_string (map_of raw ''type'') = Some ''assistant'' \<or>
          as_string (map_of raw ''type'') = Some ''user'') \<and>
         (\<exists>e. parseMessageContent L raw = Inl e)))
   \<and> (\<forall>e. parseMessage L now raw = Inl e \<longrightarrow> (\<exists>d c. e = CLIJSONDecodeError d c))
   \<and> (\<forall>t. as_string (map_of raw ''type'') = Some t \<and>
            t \<noteq> ''system'' \<and> t \<noteq> ''assistant'' \<and> t \<noteq> ''user'' \<and> t \<noteq> ''result'' \<longrightarrow>
          parseMessage L now raw =
            Inr (MSystem
              \<lparr>sm_Subtype = t, sm_APIKeySource = None, sm_Cwd = None,
               sm_SessionID = string_or_zero raw ''session_id'',
               sm_Tools = [], sm_MCPServers = [], sm_Model = None, sm_PermissionMode = None,
               sm_CreatedAt = parseTimestamp L now raw\<rparr>))"
proof (intro conjI allI impI)
  assume "as_string (map_of raw ''type'') = None"
  then show "parseMessage L now raw =
        Inl (CLIJSONDecodeError (fmt_Sprintf_v L (JObj raw)) ''missing or invalid message type'')"
    by (simp add: parseMessage_def)
next
  show "(\<exists>e. parseMessage L now raw = Inl e) \<longleftrightarrow>
        (as_string (map_of raw ''type'') = None \<or>
         (as_string (map_of raw ''type'') = Some ''assistant'' \<or>
          as_string (map_of raw ''type'') = Some ''user'') \<and>
         (\<exists>e. parseMessageContent L raw = Inl e))"
    by (rule parseMessage_fails_iff)
next
  fix e assume "parseMessage L now raw = Inl e"
  then show "\<exists>d c. e = CLIJSONDecodeError d c" by (rule parseMessage_error)
next
  fix t
  assume "as_string (map_of raw ''type'') = Some t \<and>
            t \<noteq> ''system'' \<and> t \<noteq> ''assistant'' \<and> t \<noteq> ''user'' \<and> t \<noteq> ''result''"
  then show "parseMessage L now raw =
            Inr (MSystem
              \<lparr>sm_Subtype = t, sm_APIKeySource = None, sm_Cwd = None,
               sm_SessionID = string_or_zero raw ''session_id'',
               sm_Tools = [], sm_MCPServers = [], sm_Model = None, sm_PermissionMode = None,
               sm_CreatedAt = parseTimestamp L now raw\<rparr>)"
    by (simp add: parseMessage_def parseCommonFields_def Let_def)
qed

text \<open>C1, instances: no \<^verbatim>\<open>type\<close>; a number as \<^verbatim>\<open>type\<close>; the unknown type \<^verbatim>\<open>stream_event\<close>.\<close>

theorem parseMessage_type_discriminator_witness:
  "parseMessage sample_lib 7 [(''session_id'', JStr ''s1'')] =
     Inl (CLIJSONDecodeError ''<value>'' ''missing or invalid message type'')
   \<and> parseMessage sample_lib 7 [(''type'', JNum 3)] =
     Inl (CLIJSONDecodeError ''<value>'' ''missing or invalid message type'')
   \<and> parseMessage sample_lib 7 [(''type'', JStr ''stream_event''), (''session_id'', JStr ''s1'')] =
     Inr (MSystem
       \<lparr>sm_Subtype = ''stream_event'', sm_APIKeySource = None, sm_Cwd = None,
        sm_SessionID = ''s1'', sm_Tools = [], sm_MCPServers = [], sm_Model = None,
        sm_PermissionMode = None, sm_CreatedAt = 7\<rparr>)"
  using parseMessage_type_discriminator [of "[(''session_id'', JStr ''s1'')]" sample_lib 7]
    parseMessage_type_discriminator [of "[(''type'', JNum 3)]" sample_lib 7]
    parseMessage_type_discriminator
      [of "[(''type'', JStr ''stream_event''), (''session_id'', JStr ''s1'')]" sample_lib 7]
  by (simp add: sample_lib_def string_or_zero_def parseTimestamp_def)

text \<open>C1 as stated fails: this record has a string \<^verbatim>\<open>type\<close>, and \<^verbatim>\<open>parseMessage\<close> fails on it
  with a \<^verbatim>\<open>CLIJSONDecodeError\<close>, because of its content block.\<close>

theorem parseMessage_type_discriminator_counterexample:
  "parseMessage sample_lib 7
     [(''type'', JStr ''assistant''),
      (''message'', JObj [(''content'', JArr [JObj [(''type'', JStr ''bogus'')]])])] =
     Inl (CLIJSONDecodeError ''<value>'' ''unknown content block type: bogus'')
   \<and> as_string (map_of
        [(''type'', JStr ''assistant''),
         (''message'', JObj [(''content'', JArr [JObj [(''type'', JStr ''bogus'')]])])] ''type'') =
       Some ''assistant''"
  by (simp add: decoder_defs sample_lib_def Let_def)

section \<open>Content blocks\<close>

lemma parseBlockArray_member_fails:
  "x \<in> set xs \<Longrightarrow> parseContentBlock L x = Inl e \<Longrightarrow> \<exists>e'. parseBlockArray L xs acc = Inl e'"
proof (induction xs arbitrary: acc)
  case Nil
  then show ?case by simp
next
  case (Cons y ys)
  show ?case
  proof (cases "parseContentBlock L y")
    case (Inl e1)
    then show ?thesis by simp
  next
    case (Inr b)
    with Cons.prems have "x \<in> set ys" by auto
    from Cons.IH [OF this Cons.prems(2)] Inr show ?thesis by simp
  qed
qed

lemma parseContentBlock_offending:
  assumes "case x of
             JObj b \<Rightarrow>
               (case as_string (map_of b ''type'') of
                  Some bt \<Rightarrow> bt \<noteq> ''text'' \<and> bt \<noteq> ''tool_use'' \<and> bt \<noteq> ''tool_result''
                | None \<Rightarrow> as_string (map_of b ''text'') = None)
           | JStr s \<Rightarrow> False
           | _ \<Rightarrow> True"
  shows "\<exists>e. parseContentBlock L x = Inl e"
  using assms
  by (auto simp: parseContentBlock_def split: json.splits option.splits)

text \<open>
  C3. Take an \<^verbatim>\<open>assistant\<close> or \<^verbatim>\<open>user\<close> record whose \<^verbatim>\<open>message.content\<close> is an array, and an
  element \<open>x\<close> of the array that is neither a map nor a string, or is a map whose \<^verbatim>\<open>type\<close> is
  a string other than \<^verbatim>\<open>text\<close>, \<^verbatim>\<open>tool_use\<close> and \<^verbatim>\<open>tool_result\<close>, or is a map with no string
  \<^verbatim>\<open>type\<close> and no string \<^verbatim>\<open>text\<close>. Then the whole message fails with a \<^verbatim>\<open>CLIJSONDecodeError\<close>
  (the one the block parser raised): no message, hence no block, comes out of the line.
\<close>

theorem bad_content_block_fails_message:
  assumes "as_string (map_of raw ''type'') = Some t" and "t = ''assistant'' \<or> t = ''user''"
    and "map_of raw ''message'' = Some (JObj msgMap)"
    and "map_of msgMap ''content'' = Some (JArr xs)"
    and "x \<in> set xs"
    and "case x of
           JObj b \<Rightarrow>
             (case as_string (map_of b ''type'') of
                Some bt \<Rightarrow> bt \<noteq> ''text'' \<and> bt \<noteq> ''tool_use'' \<and> bt \<noteq> ''tool_result''
              | None \<Rightarrow> as_string (map_of b ''text'') = None)
         | JStr s \<Rightarrow> False
         | _ \<Rightarrow> True"
  shows "\<exists>d c. parseMessage L now raw = Inl (CLIJSONDecodeError d c)
               \<and> parseContentBlocks L (JArr xs) = Inl (CLIJSONDecodeError d c)"
proof -
  from assms(6) obtain e where "parseContentBlock L x = Inl e"
    using parseContentBlock_offending by blast
  with assms(5) obtain e' where e': "parseBlockArray L xs [] = Inl e'"
    using parseBlockArray_member_fails by blast
  then have blocks: "parseContentBlocks L (JArr xs) = Inl e'"
    by (simp add: parseContentBlocks_def)
  with assms(3,4) have "parseMessageContent L raw = Inl e'"
    by (simp add: parseMessageContent_def)
  with assms(1,2) have msg: "parseMessage L now raw = Inl e'"
    by (rule parseMessage_content_failure)
  from e' obtain d c where "e' = CLIJSONDecodeError d c"
    using parseBlockArray_error by blast
  with msg blocks show ?thesis by simp
qed

text \<open>C3, instance: a good text block followed by a block of type \<^verbatim>\<open>bogus\<close>.\<close>

theorem bad_content_block_fails_message_witness:
  "\<exists>d c. parseMessage sample_lib 7
      [(''type'', JStr ''assistant''),
       (''message'', JObj [(''content'',
           JArr [JObj [(''type'', JStr ''text''), (''text'', JStr ''ok'')],
                 JObj [(''type'', JStr ''bogus'')]])])] = Inl (CLIJSONDecodeError d c)
     \<and> parseContentBlocks sample_lib
          (JArr [JObj [(''type'', JStr ''text''), (''text'', JStr ''ok'')],
                 JObj [(''type'', JStr ''bogus'')]]) = Inl (CLIJSONDecodeError d c)"
  by (rule bad_content_block_fails_message
        [where t = "''assistant''" and x = "JObj [(''type'', JStr ''bogus'')]"
           and msgMap = "[(''content'',
             JArr [JObj [(''type'', JStr ''text''), (''text'', JStr ''ok'')],
                   JObj [(''type'', JStr ''bogus'')]])]"]) simp_all

lemma parseBlockArray_positions:
  "parseBlockArray L xs acc = Inr bs \<Longrightarrow>
     \<exists>cs. bs = acc @ cs \<and> length cs = length xs \<and>
          (\<forall>i<length xs. parseContentBlock L (xs ! i) = Inr (cs ! i))"
proof (induction xs arbitrary: acc)
  case Nil
  then show ?case by simp
next
  case (Cons y ys)
  from Cons.prems obtain b where b: "parseContentBlock L y = Inr b"
    and rest: "parseBlockArray L ys (acc @ [b]) = Inr bs"
    by (auto split: sum.splits)
  from Cons.IH [OF rest] obtain cs where bs: "bs = (acc @ [b]) @ cs"
    and len: "length cs = length ys"
    and pos: "\<forall>i<length ys. parseContentBlock L (ys ! i) = Inr (cs ! i)"
    by blast
  have "\<forall>i<length (y # ys). parseContentBlock L ((y # ys) ! i) = Inr ((b # cs) ! i)"
  proof (intro allI impI)
    fix i assume "i < length (y # ys)"
    then show "parseContentBlock L ((y # ys) ! i) = Inr ((b # cs) ! i)"
      using b pos by (cases i) simp_all
  qed
  with bs len show ?case by (intro exI [of _ "b # cs"]) simp
qed

lemma parseBlockArray_total:
  "length bs = length xs \<Longrightarrow>
   (\<forall>i<length xs. parseContentBlock L (xs ! i) = Inr (bs ! i)) \<Longrightarrow>
   parseBlockArray L xs acc = Inr (acc @ bs)"
proof (induction xs arbitrary: bs acc)
  case Nil
  then show ?case by simp
next
  case (Cons y ys)
  from Cons.prems(1) obtain b bs' where bs: "bs = b # bs'" and len: "length bs' = length ys"
    by (cases bs) auto
  from Cons.prems(2) [rule_format, of 0] bs have b: "parseContentBlock L y = Inr b" by simp
  have "\<forall>i<length ys. parseContentBlock L (ys ! i) = Inr (bs' ! i)"
  proof (intro allI impI)
    fix i assume "i < length ys"
    with Cons.prems(2) [rule_format, of "Suc i"] bs
    show "parseContentBlock L (ys ! i) = Inr (bs' ! i)" by simp
  qed
  from Cons.IH [OF len this, of "acc @ [b]"] b bs show ?case by simp
qed

text \<open>
  C6. Take an \<^verbatim>\<open>assistant\<close> or \<^verbatim>\<open>user\<close> record whose \<^verbatim>\<open>message.content\<close> is an array. When
  the record decodes, the message has as many content blocks as the array has elements, and
  the block at each position is what \<^verbatim>\<open>parseContentBlock\<close> gives for the element at that
  position. And the record does decode whenever every element does: if \<open>bs\<close> lists, position
  by position, the blocks that \<^verbatim>\<open>parseContentBlock\<close> gives for the elements, the record
  decodes to a message whose content is exactly \<open>bs\<close>.
\<close>

theorem content_array_order_preserved:
  assumes "as_string (map_of raw ''type'') = Some t" and "t = ''assistant'' \<or> t = ''user''"
    and "map_of raw ''message'' = Some (JObj msgMap)"
    and "map_of msgMap ''content'' = Some (JArr xs)"
  shows "(\<forall>msg. parseMessage L now raw = Inr msg \<longrightarrow>
            length (Content msg) = length xs \<and>
            (\<forall>i<length xs. parseContentBlock L (xs ! i) = Inr (Content msg ! i)))
       \<and> (\<forall>bs. length bs = length xs \<and>
                (\<forall>i<length xs. parseContentBlock L (xs ! i) = Inr (bs ! i)) \<longrightarrow>
                (\<exists>msg. parseMessage L now raw = Inr msg \<and> Content msg = bs))"
proof -
  from assms(3,4) have mc: "parseMessageContent L raw = parseBlockArray L xs []"
    by (simp add: parseMessageContent_def parseContentBlocks_def)
  have decoded: "length (Content msg) = length xs \<and>
          (\<forall>i<length xs. parseContentBlock L (xs ! i) = Inr (Content msg ! i))"
    if dec: "parseMessage L now raw = Inr msg" for msg
  proof -
    from dec assms(1,2) obtain bs where bs: "parseMessageContent L raw = Inr bs"
      and c: "Content msg = bs"
      by (auto simp: parseMessage_def parseAssistantMessage_def parseUserMessage_def Let_def
          split: prod.splits sum.splits)
    from bs mc have "parseBlockArray L xs [] = Inr bs" by simp
    from parseBlockArray_positions [OF this] c show ?thesis by simp
  qed
  have decodes: "\<exists>msg. parseMessage L now raw = Inr msg \<and> Content msg = bs"
    if each: "length bs = length xs \<and>
            (\<forall>i<length xs. parseContentBlock L (xs ! i) = Inr (bs ! i))" for bs
  proof -
    from each have "parseBlockArray L xs [] = Inr ([] @ bs)"
      by (intro parseBlockArray_total) simp_all
    with mc have "parseMessageContent L raw = Inr bs" by simp
    with assms(1,2) show ?thesis
      by (auto simp: parseMessage_def parseAssistantMessage_def parseUserMessage_def Let_def
          split: prod.splits)
  qed
  from decoded decodes show ?thesis by blast
qed

text \<open>C6, instance: a \<^verbatim>\<open>user\<close> record whose content is a string, a tool result and a map
  with only a \<^verbatim>\<open>text\<close>; it decodes, to these three blocks in this order.\<close>

theorem content_array_order_preserved_witness:
  "\<exists>msg. parseMessage sample_lib 7
      [(''type'', JStr ''user''),
       (''message'', JObj [(''content'',
          JArr [JStr ''a'',
                JObj [(''type'', JStr ''tool_result''), (''tool_use_id'', JStr ''t1''),
                      (''content'', JStr ''done'')],
                JObj [(''text'', JStr ''b'')]])])] = Inr msg
     \<and> Content msg =
         [TextBlock ''a'', ToolResultBlock ''t1'' (JStr ''done'') False, TextBlock ''b'']
     \<and> length (Content msg) = 3
     \<and> parseContentBlock sample_lib
          (JObj [(''type'', JStr ''tool_result''), (''tool_use_id'', JStr ''t1''),
                 (''content'', JStr ''done'')]) = Inr (Content msg ! 1)"
proof -
  let ?xs = "[JStr ''a'',
              JObj [(''type'', JStr ''tool_result''), (''tool_use_id'', JStr ''t1''),
                    (''content'', JStr ''done'')],
              JObj [(''text'', JStr ''b'')]]"
  let ?raw = "[(''type'', JStr ''user''), (''message'', JObj [(''content'', JArr ?xs)])]"
  let ?bs = "[TextBlock ''a'', ToolResultBlock ''t1'' (JStr ''done'') False, TextBlock ''b'']"
  have ty: "as_string (map_of ?raw ''type'') = Some ''user''" by simp
  have t: "''user'' = ''assistant'' \<or> ''user'' = ''user''" by simp
  have msg: "map_of ?raw ''message'' = Some (JObj [(''content'', JArr ?xs)])" by simp
  have con: "map_of [(''content'', JArr ?xs)] ''content'' = Some (JArr ?xs)" by simp
  note inst = content_array_order_preserved [OF ty t msg con, of sample_lib 7]
  have each: "length ?bs = length ?xs \<and>
      (\<forall>i<length ?xs. parseContentBlock sample_lib (?xs ! i) = Inr (?bs ! i))"
    by (simp add: less_Suc_eq parseContentBlock_def string_or_zero_def bool_or_zero_def
        all_conj_distrib)
  from inst [THEN conjunct2, rule_format, OF each]
  obtain m where dec: "parseMessage sample_lib 7 ?raw = Inr m" and c: "Content m = ?bs"
    by blast
  from inst [THEN conjunct1, rule_format, OF dec]
  have len: "length (Content m) = length ?xs"
    and pos: "\<forall>i<length ?xs. parseContentBlock sample_lib (?xs ! i) = Inr (Content m ! i)"
    by blast+
  from len have len3: "length (Content m) = 3" by simp
  from pos [rule_format, of 1]
  have p1: "parseContentBlock sample_lib (?xs ! 1) = Inr (Content m ! 1)" by simp
  then have "parseContentBlock sample_lib
          (JObj [(''type'', JStr ''tool_result''), (''tool_use_id'', JStr ''t1''),
                 (''content'', JStr ''done'')]) = Inr (Content m ! 1)"
    by simp
  with dec c len3 show ?thesis by blast
qed

section \<open>The cost of a result record\<close>

lemma parseMessage_result:
  assumes "as_string (map_of raw ''type'') = Some ''result''"
  shows "parseMessage L now raw =
           parseResultMessage L raw (fst (parseCommonFields raw)) (parseTimestamp L now raw)"
  using assms by (simp add: parseMessage_def Let_def split: prod.splits)

lemma parseResultMessage_cost:
  "\<exists>r. parseResultMessage L raw sid ts = Inr (MResult r) \<and>
       rm_TotalCostUSD r =
         (case as_float64 (map_of raw ''total_cost_usd'') of
            Some c \<Rightarrow> if 0 < c then Some c else None
          | None \<Rightarrow> None)"
  by (simp add: parseResultMessage_def float64_or_zero_def Let_def split: option.splits)

text \<open>
  C7. A \<^verbatim>\<open>result\<close> record always decodes to a result message. If \<^verbatim>\<open>total_cost_usd\<close> is a
  number greater than zero, the cost field is set and equals it; if \<^verbatim>\<open>total_cost_usd\<close> is
  absent or is the number zero, the cost field is nil.
\<close>

theorem result_cost_field:
  assumes "as_string (map_of raw ''type'') = Some ''result''"
  shows "\<exists>r. parseMessage L now raw = Inr (MResult r) \<and>
           (\<forall>c. map_of raw ''total_cost_usd'' = Some (JNum c) \<and> 0 < c
                 \<longrightarrow> rm_TotalCostUSD r = Some c) \<and>
           (map_of raw ''total_cost_usd'' = None \<or> map_of raw ''total_cost_usd'' = Some (JNum 0)
                 \<longrightarrow> rm_TotalCostUSD r = None)"
proof -
  from parseResultMessage_cost [of L raw "fst (parseCommonFields raw)" "parseTimestamp L now raw"]
  obtain r where pr: "parseResultMessage L raw (fst (parseCommonFields raw))
                        (parseTimestamp L now raw) = Inr (MResult r)"
    and cost: "rm_TotalCostUSD r =
         (case as_float64 (map_of raw ''total_cost_usd'') of
            Some c \<Rightarrow> if 0 < c then Some c else None
          | None \<Rightarrow> None)"
    by blast
  from pr have r: "parseMessage L now raw = Inr (MResult r)"
    by (simp add: parseMessage_result [OF assms])
  have pos: "rm_TotalCostUSD r = Some c"
    if "map_of raw ''total_cost_usd'' = Some (JNum c) \<and> 0 < c" for c
    using cost that by simp
  have zero: "rm_TotalCostUSD r = None"
    if "map_of raw ''total_cost_usd'' = None \<or> map_of raw ''total_cost_usd'' = Some (JNum 0)"
    using that
  proof
    assume "map_of raw ''total_cost_usd'' = None"
    then show ?thesis using cost by simp
  next
    assume "map_of raw ''total_cost_usd'' = Some (JNum 0)"
    then show ?thesis using cost by simp
  qed
  from r pos zero show ?thesis by blast
qed

text \<open>C7, instances: a cost of a quarter of a dollar, a cost of zero, no cost.\<close>

theorem result_cost_field_witness:
  "(\<exists>r. parseMessage sample_lib 7
          [(''type'', JStr ''result''), (''total_cost_usd'', JNum (1 / 4))] = Inr (MResult r)
        \<and> rm_TotalCostUSD r = Some (1 / 4))
   \<and> (\<exists>r. parseMessage sample_lib 7
          [(''type'', JStr ''result''), (''total_cost_usd'', JNum 0)] = Inr (MResult r)
        \<and> rm_TotalCostUSD r = None)
   \<and> (\<exists>r. parseMessage sample_lib 7 [(''type'', JStr ''result'')] = Inr (MResult r)
        \<and> rm_TotalCostUSD r = None)"
proof (intro conjI)
  have "as_string (map_of [(''type'', JStr ''result''), (''total_cost_usd'', JNum (1 / 4))]
          ''type'') = Some ''result''"
    by simp
  from result_cost_field [OF this, of sample_lib 7]
  obtain r where r: "parseMessage sample_lib 7
          [(''type'', JStr ''result''), (''total_cost_usd'', JNum (1 / 4))] = Inr (MResult r)"
    and c: "\<forall>c. map_of [(''type'', JStr ''result''), (''total_cost_usd'', JNum (1 / 4))]
                ''total_cost_usd'' = Some (JNum c) \<and> 0 < c \<longrightarrow> rm_TotalCostUSD r = Some c"
    by blast
  from c [rule_format, of "1 / 4"] have "rm_TotalCostUSD r = Some (1 / 4)" by simp
  with r show "\<exists>r. parseMessage sample_lib 7
          [(''type'', JStr ''result''), (''total_cost_usd'', JNum (1 / 4))] = Inr (MResult r)
        \<and> rm_TotalCostUSD r = Some (1 / 4)"
    by blast
next
  have "as_string (map_of [(''type'', JStr ''result''), (''total_cost_usd'', JNum 0)]
          ''type'') = Some ''result''"
    by simp
  from result_cost_field [OF this, of sample_lib 7]
  obtain r where r: "parseMessage sample_lib 7
          [(''type'', JStr ''result''), (''total_cost_usd'', JNum 0)] = Inr (MResult r)"
    and c: "map_of [(''type'', JStr ''result''), (''total_cost_usd'', JNum 0)]
                ''total_cost_usd'' = None \<or>
            map_of [(''type'', JStr ''result''), (''total_cost_usd'', JNum 0)]
                ''total_cost_usd'' = Some (JNum 0) \<longrightarrow> rm_TotalCostUSD r = None"
    by blast
  from c have "rm_TotalCostUSD r = None" by simp
  with r show "\<exists>r. parseMessage sample_lib 7
          [(''type'', JStr ''result''), (''total_cost_usd'', JNum 0)] = Inr (MResult r)
        \<and> rm_TotalCostUSD r = None"
    by blast
next
  have "as_string (map_of [(''type'', JStr ''result'')] ''type'') = Some ''result''"
    by simp
  from result_cost_field [OF this, of sample_lib 7]
  obtain r where r: "parseMessage sample_lib 7 [(''type'', JStr ''result'')] = Inr (MResult r)"
    and c: "map_of [(''type'', JStr ''result'')] ''total_cost_usd'' = None \<or>
            map_of [(''type'', JStr ''result'')] ''total_cost_usd'' = Some (JNum 0)
              \<longrightarrow> rm_TotalCostUSD r = None"
    by blast
  from c have "rm_TotalCostUSD r = None" by simp
  with r show "\<exists>r. parseMessage sample_lib 7 [(''type'', JStr ''result'')] = Inr (MResult r)
        \<and> rm_TotalCostUSD r = None"
    by blast
qed

section \<open>The clock in the decoder\<close>

lemma parseMessage_clock:
  "parseTimestamp L now1 raw = parseTimestamp L now2 raw \<Longrightarrow>
     parseMessage L now1 raw = parseMessage L now2 raw"
  by (simp add: parseMessage_def Let_def split: option.splits)

lemma parseMessage_Timestamp:
  "parseMessage L now raw = Inr m \<Longrightarrow> Timestamp m = parseTimestamp L now raw"
  by (auto simp: parseMessage_def parseSystemMessage_def parseAssistantMessage_def
      parseUserMessage_def parseResultMessage_def Let_def
      split: option.splits if_splits prod.splits sum.splits)

lemma parseMessage_clock_only:
  "parseMessage L now raw =
     map_sum id (withCreatedAt (parseTimestamp L now raw)) (parseMessage L 0 raw)"
proof (cases "as_string (map_of raw ''type'')")
  case None
  then show ?thesis by (simp add: parseMessage_def)
next
  case (Some t)
  obtain sid ptr where c: "parseCommonFields raw = (sid, ptr)" by (cases "parseCommonFields raw")
  show ?thesis
  proof (cases "parseMessageContent L raw")
    case (Inl e)
    with Some c show ?thesis
      by (simp add: parseMessage_def parseSystemMessage_def parseAssistantMessage_def
          parseUserMessage_def parseResultMessage_def Let_def)
  next
    case (Inr bs)
    with Some c show ?thesis
      by (simp add: parseMessage_def parseSystemMessage_def parseAssistantMessage_def
          parseUserMessage_def parseResultMessage_def Let_def)
  qed
qed

lemma withCreatedAt_twice: "withCreatedAt t (withCreatedAt u m) = withCreatedAt t m"
  by (cases m) simp_all

lemma parseMessage_up_to_clock:
  "map_sum id (withCreatedAt t0) (parseMessage L now1 raw) =
   map_sum id (withCreatedAt t0) (parseMessage L now2 raw)"
proof -
  have h: "map_sum id (withCreatedAt t0) (parseMessage L now raw) =
        map_sum id (withCreatedAt t0) (parseMessage L 0 raw)" for now
    by (subst parseMessage_clock_only [of L now raw], cases "parseMessage L 0 raw")
      (simp_all add: withCreatedAt_twice)
  show ?thesis by (rule trans [OF h [of now1] h [of now2, symmetric]])
qed

lemma parseTimestamp_parsed:
  "as_string (map_of raw ''timestamp'') = Some ts \<Longrightarrow> time_Parse_RFC3339 L ts = Some t \<Longrightarrow>
     parseTimestamp L now raw = t"
  by (simp add: parseTimestamp_def)

lemma parseTimestamp_clock:
  "as_string (map_of raw ''timestamp'') = None \<or>
   (\<exists>ts. as_string (map_of raw ''timestamp'') = Some ts \<and> time_Parse_RFC3339 L ts = None) \<Longrightarrow>
     parseTimestamp L now raw = now"
  by (auto simp: parseTimestamp_def)

text \<open>
  C8 (as amended). For every record, two runs of the decoder on the same input agree in
  everything but the created-at time: they fail with the same error, or give messages that
  are equal once their created-at times are set to the same value. The timestamp of a
  decoded message is what \<^verbatim>\<open>parseTimestamp\<close> gives: for a record whose \<^verbatim>\<open>timestamp\<close> is a
  string that parses as RFC 3339 it is the parsed time, and then the two runs give the same
  result whatever the clock reads; for a record with no such field it is the clock reading
  of the run.
\<close>

theorem decode_deterministic_up_to_clock:
  "map_sum id (withCreatedAt t0) (parseMessage L now1 raw) =
     map_sum id (withCreatedAt t0) (parseMessage L now2 raw)
   \<and> (\<forall>m. parseMessage L now1 raw = Inr m \<longrightarrow> Timestamp m = parseTimestamp L now1 raw)
   \<and> (\<forall>ts t. as_string (map_of raw ''timestamp'') = Some ts \<and> time_Parse_RFC3339 L ts = Some t
          \<longrightarrow> parseTimestamp L now1 raw = t \<and>
              parseMessage L now1 raw = parseMessage L now2 raw \<and>
              (\<forall>m. parseMessage L now1 raw = Inr m \<longrightarrow> Timestamp m = t))
   \<and> (as_string (map_of raw ''timestamp'') = None \<or>
      (\<exists>ts. as_string (map_of raw ''timestamp'') = Some ts \<and> time_Parse_RFC3339 L ts = None)
          \<longrightarrow> parseTimestamp L now1 raw = now1 \<and>
              (\<forall>m. parseMessage L now1 raw = Inr m \<longrightarrow> Timestamp m = now1))"
proof -
  have apart: "map_sum id (withCreatedAt t0) (parseMessage L now1 raw) =
     map_sum id (withCreatedAt t0) (parseMessage L now2 raw)"
    by (rule parseMessage_up_to_clock)
  have stamp: "\<forall>m. parseMessage L now1 raw = Inr m \<longrightarrow> Timestamp m = parseTimestamp L now1 raw"
    by (intro allI impI) (rule parseMessage_Timestamp)
  have parsed: "\<forall>ts t. as_string (map_of raw ''timestamp'') = Some ts \<and>
          time_Parse_RFC3339 L ts = Some t
          \<longrightarrow> parseTimestamp L now1 raw = t \<and>
              parseMessage L now1 raw = parseMessage L now2 raw \<and>
              (\<forall>m. parseMessage L now1 raw = Inr m \<longrightarrow> Timestamp m = t)"
  proof (intro allI impI)
    fix ts t
    assume "as_string (map_of raw ''timestamp'') = Some ts \<and> time_Parse_RFC3339 L ts = Some t"
    then have p: "parseTimestamp L now raw = t" for now
      by (simp add: parseTimestamp_parsed)
    then have "parseMessage L now1 raw = parseMessage L now2 raw"
      by (intro parseMessage_clock) simp
    moreover from stamp p have "\<forall>m. parseMessage L now1 raw = Inr m \<longrightarrow> Timestamp m = t"
      by simp
    ultimately show "parseTimestamp L now1 raw = t \<and>
              parseMessage L now1 raw = parseMessage L now2 raw \<and>
              (\<forall>m. parseMessage L now1 raw = Inr m \<longrightarrow> Timestamp m = t)"
      using p by simp
  qed
  have clock: "as_string (map_of raw ''timestamp'') = None \<or>
      (\<exists>ts. as_string (map_of raw ''timestamp'') = Some ts \<and> time_Parse_RFC3339 L ts = None)
          \<longrightarrow> parseTimestamp L now1 raw = now1 \<and>
              (\<forall>m. parseMessage L now1 raw = Inr m \<longrightarrow> Timestamp m = now1)"
  proof (intro impI)
    assume "as_string (map_of raw ''timestamp'') = None \<or>
      (\<exists>ts. as_string (map_of raw ''timestamp'') = Some ts \<and> time_Parse_RFC3339 L ts = None)"
    then have c: "parseTimestamp L now1 raw = now1" by (rule parseTimestamp_clock)
    with stamp show "parseTimestamp L now1 raw = now1 \<and>
              (\<forall>m. parseMessage L now1 raw = Inr m \<longrightarrow> Timestamp m = now1)"
      by simp
  qed
  show ?thesis by (intro conjI apart stamp parsed clock)
qed

text \<open>C8, instances: a \<^verbatim>\<open>system\<close> record stamped 2024-01-01, decoded at the clock readings 1
  and 2, and the same record without the stamp, decoded at 1 and 2.\<close>

theorem decode_deterministic_up_to_clock_witness:
  "parseMessage sample_lib 1
      [(''type'', JStr ''system''), (''timestamp'', JStr ''2024-01-01T00:00:00Z'')] =
   parseMessage sample_lib 2
      [(''type'', JStr ''system''), (''timestamp'', JStr ''2024-01-01T00:00:00Z'')]
   \<and> Timestamp (projr (parseMessage sample_lib 1
      [(''type'', JStr ''system''), (''timestamp'', JStr ''2024-01-01T00:00:00Z'')])) =
     1704067200
   \<and> map_sum id (withCreatedAt 0) (parseMessage sample_lib 1 [(''type'', JStr ''system'')]) =
     map_sum id (withCreatedAt 0) (parseMessage sample_lib 2 [(''type'', JStr ''system'')])
   \<and> Timestamp (projr (parseMessage sample_lib 1 [(''type'', JStr ''system'')])) = 1
   \<and> Timestamp (projr (parseMessage sample_lib 2 [(''type'', JStr ''system'')])) = 2"
proof -
  let ?raw = "[(''type'', JStr ''system''), (''timestamp'', JStr ''2024-01-01T00:00:00Z'')]"
  let ?bare = "[(''type'', JStr ''system'')]"
  note stamped = decode_deterministic_up_to_clock [of 0 sample_lib 1 ?raw 2]
  note bare1 = decode_deterministic_up_to_clock [of 0 sample_lib 1 ?bare 2]
  note bare2 = decode_deterministic_up_to_clock [of 0 sample_lib 2 ?bare 1]
  have a: "as_string (map_of ?raw ''timestamp'') = Some ''2024-01-01T00:00:00Z'' \<and>
      time_Parse_RFC3339 sample_lib ''2024-01-01T00:00:00Z'' = Some 1704067200"
    by (simp add: sample_lib_def)
  have n: "as_string (map_of ?bare ''timestamp'') = None \<or>
      (\<exists>ts. as_string (map_of ?bare ''timestamp'') = Some ts \<and>
            time_Parse_RFC3339 sample_lib ts = None)"
    by simp
  have d: "parseMessage sample_lib now ?raw = Inr (projr (parseMessage sample_lib now ?raw))"
    for now
    by (simp add: parseMessage_def parseSystemMessage_def Let_def split: prod.splits)
  have e: "parseMessage sample_lib now ?bare = Inr (projr (parseMessage sample_lib now ?bare))"
    for now
    by (simp add: parseMessage_def parseSystemMessage_def Let_def split: prod.splits)
  note sp = stamped [THEN conjunct2, THEN conjunct2, THEN conjunct1, rule_format, OF a]
  note s2 = sp [THEN conjunct2, THEN conjunct1]
  note s3 = sp [THEN conjunct2, THEN conjunct2, rule_format, OF d [of 1]]
  note b0 = bare1 [THEN conjunct1]
  note b1 = bare1 [THEN conjunct2, THEN conjunct2, THEN conjunct2, THEN mp, OF n,
      THEN conjunct2, rule_format, OF e [of 1]]
  note b2 = bare2 [THEN conjunct2, THEN conjunct2, THEN conjunct2, THEN mp, OF n,
      THEN conjunct2, rule_format, OF e [of 2]]
  from s2 s3 b0 b1 b2 show ?thesis by (intro conjI)
qed

text \<open>C8 as stated fails: the same \<^verbatim>\<open>system\<close> record with no \<^verbatim>\<open>timestamp\<close>, decoded at the
  clock readings 1 and 2, gives two messages with different created-at times.\<close>

theorem decode_clock_counterexample:
  "parseMessage sample_lib 1 [(''type'', JStr ''system'')] =
     Inr (MSystem \<lparr>sm_Subtype = [], sm_APIKeySource = None, sm_Cwd = None, sm_SessionID = [],
            sm_Tools = [], sm_MCPServers = [], sm_Model = None, sm_PermissionMode = None,
            sm_CreatedAt = 1\<rparr>)
   \<and> parseMessage sample_lib 2 [(''type'', JStr ''system'')] =
     Inr (MSystem \<lparr>sm_Subtype = [], sm_APIKeySource = None, sm_Cwd = None, sm_SessionID = [],
            sm_Tools = [], sm_MCPServers = [], sm_Model = None, sm_PermissionMode = None,
            sm_CreatedAt = 2\<rparr>)
   \<and> parseMessage sample_lib 1 [(''type'', JStr ''system'')] \<noteq>
     parseMessage sample_lib 2 [(''type'', JStr ''system'')]"
  by (simp add: decoder_defs Let_def)

section \<open>The verbose flag\<close>

lemma addOutputArgs_eq:
  "addOutputArgs args options =
     args @ [''--output-format'', outputFormat options] @
       (if Verbose options = Some True \<or> outputFormat options = ''stream-json''
        then [''--verbose''] else [])"
  by (simp add: addOutputArgs_def Let_def)

lemma addPromptArgs_append: "addPromptArgs args options = args @ addPromptArgs [] options"
  by (simp add: addPromptArgs_def)

lemma addModelAndToolArgs_append:
  "addModelAndToolArgs args options = args @ addModelAndToolArgs [] options"
  by (simp add: addModelAndToolArgs_def)

lemma addSessionArgs_append: "addSessionArgs args options = args @ addSessionArgs [] options"
  by (simp add: addSessionArgs_def)

lemma addOutputArgs_append: "addOutputArgs args options = args @ addOutputArgs [] options"
  by (simp add: addOutputArgs_def Let_def)

lemma addMCPArgs_append: "addMCPArgs L args options = args @ addMCPArgs L [] options"
  by (simp add: addMCPArgs_def)

lemma addPermissionArgs_append:
  "addPermissionArgs args options = args @ addPermissionArgs [] options"
  by (simp add: addPermissionArgs_def)

lemma addMiscArgs_append: "addMiscArgs args options = args @ addMiscArgs [] options"
  by (simp add: addMiscArgs_def)

lemma buildCommandArgs_sections:
  "buildCommandArgs L options =
     [''--print''] @ addPromptArgs [] options @ addModelAndToolArgs [] options @
     addSessionArgs [] options @ addOutputArgs [] options @ addMCPArgs L [] options @
     addPermissionArgs [] options @ addMiscArgs [] options"
  unfolding buildCommandArgs_def Let_def
  by (subst addMiscArgs_append, subst addPermissionArgs_append, subst addMCPArgs_append,
      subst addOutputArgs_append, subst addSessionArgs_append, subst addModelAndToolArgs_append,
      subst addPromptArgs_append) simp

lemma buildCommandArgs_contains_output:
  "x \<in> set (addOutputArgs [] options) \<Longrightarrow> x \<in> set (buildCommandArgs L options)"
  by (simp add: buildCommandArgs_sections)

text \<open>
  C9 (as amended). The argument list contains \<^verbatim>\<open>--verbose\<close> whenever the output format in
  force is \<^verbatim>\<open>stream-json\<close>, whatever \<^verbatim>\<open>Verbose\<close> is (nil, true or false), and whenever
  \<^verbatim>\<open>Verbose\<close> is true; \<^verbatim>\<open>addOutputArgs\<close> appends the format and then \<^verbatim>\<open>--verbose\<close> in exactly
  these cases.
\<close>

theorem verbose_flag_rule:
  "(outputFormat options = ''stream-json'' \<or> Verbose options = Some True
      \<longrightarrow> ''--verbose'' \<in> set (buildCommandArgs L options))
   \<and> addOutputArgs args options =
       args @ [''--output-format'', outputFormat options] @
         (if Verbose options = Some True \<or> outputFormat options = ''stream-json''
          then [''--verbose''] else [])"
proof (intro conjI impI)
  assume "outputFormat options = ''stream-json'' \<or> Verbose options = Some True"
  then have "''--verbose'' \<in> set (addOutputArgs [] options)"
    by (auto simp: addOutputArgs_eq)
  then show "''--verbose'' \<in> set (buildCommandArgs L options)"
    by (rule buildCommandArgs_contains_output)
next
  show "addOutputArgs args options =
       args @ [''--output-format'', outputFormat options] @
         (if Verbose options = Some True \<or> outputFormat options = ''stream-json''
          then [''--verbose''] else [])"
    by (rule addOutputArgs_eq)
qed

text \<open>C9, instances: the default format with \<^verbatim>\<open>Verbose\<close> false; the format \<^verbatim>\<open>json\<close> with
  \<^verbatim>\<open>Verbose\<close> true.\<close>

theorem verbose_flag_rule_witness:
  "''--verbose'' \<in> set (buildCommandArgs sample_lib (emptyOptions\<lparr>Verbose := Some False\<rparr>))
   \<and> ''--verbose'' \<in> set (buildCommandArgs sample_lib
        (emptyOptions\<lparr>OutputFormat := Some ''json'', Verbose := Some True\<rparr>))"
  using verbose_flag_rule [of "emptyOptions\<lparr>Verbose := Some False\<rparr>" sample_lib]
    verbose_flag_rule
      [of "emptyOptions\<lparr>OutputFormat := Some ''json'', Verbose := Some True\<rparr>" sample_lib]
  by (simp add: outputFormat_def emptyOptions_def)

text \<open>C9 as stated fails: with \<^verbatim>\<open>stream-json\<close> selected and \<^verbatim>\<open>Verbose\<close> set to false, the
  argument list still ends with \<^verbatim>\<open>--verbose\<close>.\<close>

theorem verbose_silence_counterexample:
  "buildCommandArgs sample_lib
     (emptyOptions\<lparr>OutputFormat := Some ''stream-json'', Verbose := Some False\<rparr>) =
     [''--print'', ''--output-format'', ''stream-json'', ''--verbose'']"
  by (simp add: buildCommandArgs_def addPromptArgs_def addModelAndToolArgs_def addSessionArgs_def
      addOutputArgs_def addMCPArgs_def addPermissionArgs_def addMiscArgs_def flag_string_def
      outputFormat_def emptyOptions_def Let_def)

section \<open>The two read loops\<close>

lemma readLoop_append:
  "readLoop L clock (pre @ rest) i messages =
     (case readLoop L clock pre i messages of
        Inl err \<Rightarrow> Inl err
      | Inr ms \<Rightarrow> readLoop L clock rest (i + length pre) ms)"
  by (induction pre arbitrary: i messages) (auto split: sum.splits)

lemma streamLoop_append:
  "streamLoop L clock ctx (pre @ rest) i sent =
     (case streamLoop L clock ctx pre i sent of
        (s, Some err) \<Rightarrow> (s, Some err)
      | (s, None) \<Rightarrow> streamLoop L clock ctx rest (i + length pre) s)"
  by (induction pre arbitrary: i sent) (auto split: sum.splits prod.splits option.splits)

lemma readLoop_extends:
  "readLoop L clock lines i messages = Inr ms \<Longrightarrow> length messages \<le> length ms"
proof (induction lines arbitrary: i messages)
  case Nil
  then show ?case by simp
next
  case (Cons line rest)
  show ?case
  proof (cases "line = []")
    case True
    with Cons show ?thesis by simp
  next
    case False
    with Cons.prems obtain raw m where "json_Unmarshal L line = Inr raw"
      and "parseMessage L (clock i) raw = Inr m"
      and "readLoop L clock rest (Suc i) (messages @ [m]) = Inr ms"
      by (auto split: sum.splits)
    from Cons.IH [OF this(3)] show ?thesis by simp
  qed
qed

lemma streamLoop_of_readLoop:
  "readLoop L clock lines i messages = Inr ms \<Longrightarrow>
   (\<And>n. length messages \<le> n \<Longrightarrow> n < length ms \<Longrightarrow> \<not> ctx_Done_at ctx n) \<Longrightarrow>
   streamLoop L clock ctx lines i messages = (ms, None)"
proof (induction lines arbitrary: i messages)
  case Nil
  then show ?case by simp
next
  case (Cons line rest)
  show ?case
  proof (cases "line = []")
    case True
    with Cons show ?thesis by simp
  next
    case False
    with Cons.prems(1) obtain raw m where u: "json_Unmarshal L line = Inr raw"
      and p: "parseMessage L (clock i) raw = Inr m"
      and r: "readLoop L clock rest (Suc i) (messages @ [m]) = Inr ms"
      by (auto split: sum.splits)
    from readLoop_extends [OF r] have "length messages < length ms" by simp
    with Cons.prems(2) have nd: "\<not> ctx_Done_at ctx (length messages)" by simp
    have "streamLoop L clock ctx rest (Suc i) (messages @ [m]) = (ms, None)"
      using r Cons.prems(2) by (intro Cons.IH) simp_all
    with False u p nd show ?thesis by simp
  qed
qed

lemma readLoop_of_streamLoop:
  "streamLoop L clock ctx lines i sent = (ms, None) \<Longrightarrow>
   readLoop L clock lines i sent = Inr ms"
  by (induction lines arbitrary: i sent) (auto split: sum.splits if_splits)

lemma createStreamPipes_eq: "createStreamPipes cmd = createPipes cmd"
  by (simp add: createStreamPipes_def createPipes_def)

section \<open>The sample run\<close>

text \<open>The scenario of the specification: the two lines decode to an assistant message with
  the text block \<open>hi\<close> and a result message with one turn, in both loops.\<close>

lemma sample_line_1:
  \<open>parseMessage sample_lib t
     [(''type'', JStr ''assistant''), (''session_id'', JStr ''s1''),
      (''message'', JObj [(''content'', JStr ''hi'')])] = Inr (sample_assistant t)\<close>
  by (simp add: decoder_defs sample_defs Let_def)

lemma sample_line_2:
  \<open>parseMessage sample_lib t
     [(''type'', JStr ''result''), (''session_id'', JStr ''s1''),
      (''is_error'', JBool False), (''num_turns'', JNum 1)] = Inr (sample_result t)\<close>
  by (simp add: decoder_defs sample_defs Let_def)

lemma sample_readLoop:
  \<open>readLoop sample_lib clock
     [''{"type":"assistant","session_id":"s1","message":{"content":"hi"}}'',
      ''{"type":"result","session_id":"s1","is_error":false,"num_turns":1}''] 0 [] =
   Inr [sample_assistant (clock 0), sample_result (clock 1)]\<close>
  using sample_line_1 sample_line_2
  by (simp add: sample_lib_def sample_Unmarshal_def)

lemma sample_streamLoop:
  \<open>streamLoop sample_lib clock sample_context
     [''{"type":"assistant","session_id":"s1","message":{"content":"hi"}}'',
      ''{"type":"result","session_id":"s1","is_error":false,"num_turns":1}''] 0 [] =
   ([sample_assistant (clock 0), sample_result (clock 1)], None)\<close>
  using sample_line_1 sample_line_2
  by (simp add: sample_lib_def sample_Unmarshal_def sample_context_def)

lemma sample_readMessages:
  assumes \<open>stdout_tokens cmd =
     [''{"type":"assistant","session_id":"s1","message":{"content":"hi"}}'',
      ''{"type":"result","session_id":"s1","is_error":false,"num_turns":1}'']\<close>
    and "stdout_scan_err cmd = None"
  shows "readMessages sample_lib clock cmd =
           Inr [sample_assistant (clock 0), sample_result (clock 1)]"
  unfolding readMessages_def assms sample_readLoop by simp

lemma sample_streamMessages:
  assumes \<open>stdout_tokens cmd =
     [''{"type":"assistant","session_id":"s1","message":{"content":"hi"}}'',
      ''{"type":"result","session_id":"s1","is_error":false,"num_turns":1}'']\<close>
    and "stdout_scan_err cmd = None"
  shows "streamMessages sample_lib clock sample_context cmd =
           ([sample_assistant (clock 0), sample_result (clock 1)], None, True)"
  unfolding streamMessages_def assms sample_streamLoop by simp

lemma sample_setup:
  assumes "Executable options = None"
  shows "setupCommand (sample_world cmd) L options = Inr cmd"
    and "setupStreamCommand (sample_world cmd) L (prepareStreamOptions options) = Inr cmd"
  using assms
  by (simp_all add: setupCommand_def setupStreamCommand_def findCLIExecutable_def
      sample_world_def prepareStreamOptions_def)

section \<open>Lines that are not JSON\<close>

text \<open>Both loops build the same error for the first non-empty line that \<^verbatim>\<open>json.Unmarshal\<close>
  rejects, a \<^verbatim>\<open>CLIJSONDecodeError\<close> whose data is the line: the batch reader returns it, and a
  streaming query puts it on the error channel after the messages of the lines before.\<close>

lemma first_rejected_line:
  assumes "stdout_tokens cmd = pre @ line # post"
    and "line \<noteq> []"
    and "json_Unmarshal L line = Inl err"
    and "readLoop L clock pre 0 [] = Inr ms"
    and "\<forall>n<length ms. \<not> ctx_Done_at ctx n"
  shows "readMessages L clock cmd = Inl (CLIJSONDecodeError line err)"
    and "streamMessages L clock ctx cmd = (ms, Some (CLIJSONDecodeError line err), False)"
proof -
  from assms(1-4) have "readLoop L clock (stdout_tokens cmd) 0 [] =
      Inl (CLIJSONDecodeError line err)"
    by (simp add: readLoop_append)
  then show "readMessages L clock cmd = Inl (CLIJSONDecodeError line err)"
    by (simp add: readMessages_def)
  from assms(4,5) have "streamLoop L clock ctx pre 0 [] = (ms, None)"
    by (intro streamLoop_of_readLoop) simp_all
  with assms(1-3) have "streamLoop L clock ctx (stdout_tokens cmd) 0 [] =
      (ms, Some (CLIJSONDecodeError line err))"
    by (simp add: streamLoop_append)
  then show "streamMessages L clock ctx cmd =
      (ms, Some (CLIJSONDecodeError line err), False)"
    by (simp add: streamMessages_def)
qed

text \<open>A streaming query hands the error of its loop on as it is; a batch query replaces
  every error of its reader by a \<^verbatim>\<open>ProcessError\<close> with exit code \<open>-1\<close>, and so never returns
  a \<^verbatim>\<open>CLIJSONDecodeError\<close>.\<close>

lemma QueryStream_read_error:
  assumes "setupStreamCommand W L
      (prepareStreamOptions (case optionsPtr of None \<Rightarrow> emptyOptions | Some opts \<Rightarrow> opts)) =
        Inr cmd"
    and "createStreamPipes cmd = None" and "Start_err cmd = None"
    and "streamMessages L clock ctx cmd = (sent, Some err, False)"
  shows "QueryStream W L clock ctx prompt optionsPtr = (sent, Some err)"
  using assms by (simp add: QueryStream_def Let_def)

lemma Query_read_error:
  assumes "setupCommand W L (case optionsPtr of None \<Rightarrow> emptyOptions | Some opts \<Rightarrow> opts) =
      Inr cmd"
    and "createPipes cmd = None" and "Start_err cmd = None"
    and "stdin_Write cmd prompt = None"
    and "readOutput L clock cmd (case optionsPtr of None \<Rightarrow> emptyOptions | Some opts \<Rightarrow> opts) =
      Inl err"
  shows "Query W L clock prompt optionsPtr =
           ([], Some (ProcessError (- 1) (stderrText cmd False) []))"
  using assms by (simp add: Query_def handleReadError_def)

lemma setupCommand_error:
  "setupCommand W L options = Inl e \<Longrightarrow> \<exists>path. e = CLINotFoundError path"
  by (auto simp: setupCommand_def findCLIExecutable_def split: option.splits sum.splits if_splits)

lemma createPipes_error:
  "createPipes cmd = Some e \<Longrightarrow> \<exists>msg cause. e = CLIConnectionError msg cause"
  by (auto simp: createPipes_def split: option.splits)

lemma waitForCommand_error:
  "waitForCommand cmd \<noteq> Some (CLIJSONDecodeError d c)"
  by (simp add: waitForCommand_def split: wait_outcome.splits)

lemma Query_never_JSONDecodeError:
  "snd (Query W L clock prompt optionsPtr) \<noteq> Some (CLIJSONDecodeError d c)"
proof -
  let ?options = "case optionsPtr of None \<Rightarrow> emptyOptions | Some opts \<Rightarrow> opts"
  show ?thesis
  proof (cases "setupCommand W L ?options")
    case (Inl e)
    with setupCommand_error [OF Inl] show ?thesis by (auto simp: Query_def)
  next
    case cmd: (Inr cmd)
    show ?thesis
    proof (cases "createPipes cmd")
      case (Some e)
      with createPipes_error [OF Some] cmd show ?thesis by (auto simp: Query_def)
    next
      case pipes: None
      show ?thesis
      proof (cases "Start_err cmd")
        case (Some e)
        with cmd pipes show ?thesis by (simp add: Query_def)
      next
        case started: None
        show ?thesis
        proof (cases "stdin_Write cmd prompt")
          case (Some e)
          with cmd pipes started show ?thesis by (simp add: Query_def)
        next
          case written: None
          show ?thesis
          proof (cases "readOutput L clock cmd ?options")
            case (Inl e)
            with cmd pipes started written show ?thesis
              by (simp add: Query_def handleReadError_def)
          next
            case (Inr messages)
            with cmd pipes started written waitForCommand_error [of cmd d c] show ?thesis
              by (simp add: Query_def)
          qed
        qed
      qed
    qed
  qed
qed

text \<open>
  C2, at the failing input: the only output line of the process is \<^verbatim>\<open>not json\<close>. The batch
  reader \<^verbatim>\<open>readMessages\<close> fails with a \<^verbatim>\<open>CLIJSONDecodeError\<close> whose data is the line, and the
  streaming query ends with that error; the batch query ends with a \<^verbatim>\<open>ProcessError\<close> of exit
  code \<open>-1\<close> instead, which holds the diagnostic text and not the line.
\<close>

theorem batch_decode_error_masked:
  "readMessages sample_lib int (sample_process\<lparr>stdout_tokens := [''not json'']\<rparr>) =
     Inl (CLIJSONDecodeError ''not json'' ''invalid character'')
   \<and> Query (sample_world (sample_process\<lparr>stdout_tokens := [''not json'']\<rparr>))
       sample_lib int ''hello'' None = ([], Some (ProcessError (- 1) [] []))
   \<and> QueryStream (sample_world (sample_process\<lparr>stdout_tokens := [''not json'']\<rparr>))
       sample_lib int sample_context ''hello'' None =
         ([], Some (CLIJSONDecodeError ''not json'' ''invalid character''))"
  by (simp add: query_defs sample_defs)

text \<open>The line \<^verbatim>\<open>null\<close> is accepted by \<^verbatim>\<open>json.Unmarshal\<close>; the loop then fails in
  \<^verbatim>\<open>parseMessage\<close>, with the \<^verbatim>\<open>%v\<close> rendering of the nil map as data and not the line.\<close>

lemma null_line:
  "readMessages sample_lib int (sample_process\<lparr>stdout_tokens := [''null'']\<rparr>) =
     Inl (CLIJSONDecodeError (fmt_Sprintf_v sample_lib (JObj []))
            ''missing or invalid message type'')"
  by (simp add: readMessages_def parseMessage_def sample_defs)

section \<open>A failed write of the prompt\<close>

text \<open>
  C4, at the failing input: the write of the prompt fails, the process prints nothing and
  exits with status 0. The streaming query ends with no error at all (the result of the
  write is dropped in \<^verbatim>\<open>sendPrompt\<close>), where the batch query on the same process returns a
  \<^verbatim>\<open>CLIConnectionError\<close>.
\<close>

theorem stream_write_failure_dropped:
  "QueryStream
     (sample_world (sample_process\<lparr>stdin_Write := (\<lambda>prompt. Some ''broken pipe''),
                                     stdout_tokens := []\<rparr>))
     sample_lib int sample_context ''hello'' None = ([], None)
   \<and> Query
     (sample_world (sample_process\<lparr>stdin_Write := (\<lambda>prompt. Some ''broken pipe''),
                                     stdout_tokens := []\<rparr>))
     sample_lib int ''hello'' None =
       ([], Some (CLIConnectionError ''failed to write prompt to stdin'' None))"
  by (simp add: query_defs sample_defs)

section \<open>A process that exits with an error status\<close>

text \<open>When the process was started and \<^verbatim>\<open>cmd.Wait()\<close> reports an exit error, a batch query
  that wrote its prompt and read the output without an error returns, beside the messages
  read, a \<^verbatim>\<open>ProcessError\<close> with the exit code and the text \<^verbatim>\<open>stderrText\<close> makes of the
  diagnostic stream once \<^verbatim>\<open>cmd.Wait()\<close> has returned. A streaming query that read the output
  to its end puts the same error on the error channel, and what it delivered before is
  every message the lines decode to (the list the batch loop builds from the same lines).\<close>

lemma exit_error_reported:
  assumes "Wait_result cmd = WaitExitError exitCode"
    and "createPipes cmd = None" and "Start_err cmd = None"
    and "options = (case optionsPtr of None \<Rightarrow> emptyOptions | Some opts \<Rightarrow> opts)"
  shows "setupCommand W L options = Inr cmd \<Longrightarrow> stdin_Write cmd prompt = None \<Longrightarrow>
          readOutput L clock cmd options = Inr messages \<Longrightarrow>
          Query W L clock prompt optionsPtr =
            (messages, Some (ProcessError exitCode (stderrText cmd True) []))"
    and "setupStreamCommand W L (prepareStreamOptions options) = Inr cmd \<Longrightarrow>
          streamMessages L clock ctx cmd = (sent, None, True) \<Longrightarrow>
          QueryStream W L clock ctx prompt optionsPtr =
            (sent, Some (ProcessError exitCode (stderrText cmd True) []))
          \<and> readLoop L clock (stdout_tokens cmd) 0 [] = Inr sent"
proof -
  assume "setupCommand W L options = Inr cmd" and "stdin_Write cmd prompt = None"
    and "readOutput L clock cmd options = Inr messages"
  with assms show "Query W L clock prompt optionsPtr =
            (messages, Some (ProcessError exitCode (stderrText cmd True) []))"
    by (simp add: Query_def waitForCommand_def)
next
  assume a: "setupStreamCommand W L (prepareStreamOptions options) = Inr cmd"
    and b: "streamMessages L clock ctx cmd = (sent, None, True)"
  with assms have "QueryStream W L clock ctx prompt optionsPtr =
            (sent, Some (ProcessError exitCode (stderrText cmd True) []))"
    by (simp add: QueryStream_def createStreamPipes_eq waitForStreamCommand_def)
  moreover from b have "streamLoop L clock ctx (stdout_tokens cmd) 0 [] = (sent, None)"
    by (auto simp: streamMessages_def split: prod.splits option.splits)
  then have "readLoop L clock (stdout_tokens cmd) 0 [] = Inr sent"
    by (rule readLoop_of_streamLoop)
  ultimately show "QueryStream W L clock ctx prompt optionsPtr =
            (sent, Some (ProcessError exitCode (stderrText cmd True) []))
          \<and> readLoop L clock (stdout_tokens cmd) 0 [] = Inr sent"
    by simp
qed

text \<open>The diagnostic stream is read only after \<^verbatim>\<open>cmd.Wait()\<close> has returned. When that read
  fails, as it does on a pipe that \<^verbatim>\<open>Wait\<close> has closed, the text carried is a fixed one,
  whatever the process wrote.\<close>

lemma stderrText_after_Wait:
  "stderr_ReadAll cmd True = Inl readErr \<Longrightarrow> stderrText cmd True = ''failed to read stderr''"
  by (simp add: stderrText_def)

text \<open>
  C5, at the failing input: the process prints the two lines, writes \<^verbatim>\<open>auth failed\<close> to its
  diagnostic stream and exits with status 1; the diagnostic stream gives that text to a read
  made before \<^verbatim>\<open>cmd.Wait()\<close> and is closed after it. Both queries end with a \<^verbatim>\<open>ProcessError\<close>
  that has the exit code 1 and the text \<^verbatim>\<open>failed to read stderr\<close>, not the text the process
  wrote; the messages decoded were delivered.
\<close>

theorem exit_error_loses_stderr:
  "stderr_ReadAll failing_process False = Inr ''auth failed''
   \<and> Query (sample_world failing_process) sample_lib int ''hello'' None =
       ([sample_assistant 0, sample_result 1],
        Some (ProcessError 1 ''failed to read stderr'' []))
   \<and> QueryStream (sample_world failing_process) sample_lib int sample_context ''hello'' None =
       ([sample_assistant 0, sample_result 1],
        Some (ProcessError 1 ''failed to read stderr'' []))"
proof -
  have ex: "Executable emptyOptions = None" by (simp add: emptyOptions_def)
  have tok: \<open>stdout_tokens failing_process =
     [''{"type":"assistant","session_id":"s1","message":{"content":"hi"}}'',
      ''{"type":"result","session_id":"s1","is_error":false,"num_turns":1}'']\<close>
    by (simp add: failing_process_def sample_process_def)
  have sc: "stdout_scan_err failing_process = None"
    by (simp add: failing_process_def sample_process_def)
  have w: "Wait_result failing_process = WaitExitError 1" by (simp add: failing_process_def)
  have p: "createPipes failing_process = None"
    by (simp add: createPipes_def failing_process_def sample_process_def)
  have st: "Start_err failing_process = None"
    by (simp add: failing_process_def sample_process_def)
  have wr: "stdin_Write failing_process ''hello'' = None"
    by (simp add: failing_process_def sample_process_def)
  have o: "emptyOptions = (case None of None \<Rightarrow> emptyOptions | Some opts \<Rightarrow> opts)" by simp
  have fixed: "stderrText failing_process True = ''failed to read stderr''"
    by (rule stderrText_after_Wait [of _ "''file already closed''"])
      (simp add: failing_process_def)
  have "readOutput sample_lib int failing_process emptyOptions =
      readMessages sample_lib int failing_process"
    by (simp add: readOutput_def outputFormat_def emptyOptions_def)
  with sample_readMessages [OF tok sc, of int]
  have ro: "readOutput sample_lib int failing_process emptyOptions =
      Inr [sample_assistant 0, sample_result 1]"
    by simp
  from sample_streamMessages [OF tok sc, of int]
  have sm: "streamMessages sample_lib int sample_context failing_process =
        ([sample_assistant 0, sample_result 1], None, True)"
    by simp
  from exit_error_reported(1) [OF w p st o sample_setup(1) [OF ex] wr ro] fixed
  have batch: "Query (sample_world failing_process) sample_lib int ''hello'' None =
       ([sample_assistant 0, sample_result 1],
        Some (ProcessError 1 ''failed to read stderr'' []))"
    by simp
  from exit_error_reported(2) [OF w p st o sample_setup(2) [OF ex] sm] fixed
  have stream: "QueryStream (sample_world failing_process) sample_lib int sample_context
        ''hello'' None =
       ([sample_assistant 0, sample_result 1],
        Some (ProcessError 1 ''failed to read stderr'' []))"
    by simp
  have "stderr_ReadAll failing_process False = Inr ''auth failed''"
    by (simp add: failing_process_def)
  with batch stream show ?thesis by blast
qed

section \<open>Text output\<close>

text \<open>
  C10. When the output format in force is \<^verbatim>\<open>text\<close> and the whole output stream is read as
  \<open>content\<close>, \<^verbatim>\<open>readOutput\<close> is \<^verbatim>\<open>readTextOutput\<close> and yields exactly one message: a result
  message with subtype \<^verbatim>\<open>text_output\<close>, session \<^verbatim>\<open>text_output_session\<close> and the result string
  \<open>content\<close>. This holds for every runtime \<open>L\<close>: no line is unmarshalled. A batch query
  that started its process and wrote its prompt returns that one message.
\<close>

theorem text_output_single_result:
  assumes "outputFormat options = ''text''" and "stdout_ReadAll cmd = Inr content"
    and "options = (case optionsPtr of None \<Rightarrow> emptyOptions | Some opts \<Rightarrow> opts)"
  shows "readOutput L clock cmd options =
           Inr [MResult
                 \<lparr>rm_Subtype = ''text_output'', rm_DurationMs = 0, rm_DurationAPIMs = 0,
                  rm_IsError = False, rm_NumTurns = 0, rm_SessionID = ''text_output_session'',
                  rm_TotalCostUSD = None, rm_Usage = None, rm_Result = Some content,
                  rm_CreatedAt = clock 0\<rparr>]
       \<and> readOutput L clock cmd options = readTextOutput clock cmd
       \<and> (setupCommand W L options = Inr cmd \<and> createPipes cmd = None \<and>
          Start_err cmd = None \<and> stdin_Write cmd prompt = None
          \<longrightarrow> fst (Query W L clock prompt optionsPtr) =
                [MResult
                 \<lparr>rm_Subtype = ''text_output'', rm_DurationMs = 0, rm_DurationAPIMs = 0,
                  rm_IsError = False, rm_NumTurns = 0, rm_SessionID = ''text_output_session'',
                  rm_TotalCostUSD = None, rm_Usage = None, rm_Result = Some content,
                  rm_CreatedAt = clock 0\<rparr>])"
  using assms by (simp add: readOutput_def readTextOutput_def Query_def)

text \<open>C10, instance: the sample process, whose whole output is \<^verbatim>\<open>hello\<close>.\<close>

theorem text_output_single_result_witness:
  "readOutput sample_lib int sample_process (emptyOptions\<lparr>OutputFormat := Some ''text''\<rparr>) =
     Inr [MResult
           \<lparr>rm_Subtype = ''text_output'', rm_DurationMs = 0, rm_DurationAPIMs = 0,
            rm_IsError = False, rm_NumTurns = 0, rm_SessionID = ''text_output_session'',
            rm_TotalCostUSD = None, rm_Usage = None, rm_Result = Some ''hello'',
            rm_CreatedAt = 0\<rparr>]
   \<and> Query (sample_world sample_process) sample_lib int ''hello''
       (Some (emptyOptions\<lparr>OutputFormat := Some ''text''\<rparr>)) =
     ([MResult
           \<lparr>rm_Subtype = ''text_output'', rm_DurationMs = 0, rm_DurationAPIMs = 0,
            rm_IsError = False, rm_NumTurns = 0, rm_SessionID = ''text_output_session'',
            rm_TotalCostUSD = None, rm_Usage = None, rm_Result = Some ''hello'',
            rm_CreatedAt = 0\<rparr>], None)"
proof -
  let ?opts = "emptyOptions\<lparr>OutputFormat := Some ''text''\<rparr>"
  have f: "outputFormat ?opts = ''text''" by (simp add: outputFormat_def)
  have c: "stdout_ReadAll sample_process = Inr ''hello''" by (simp add: sample_process_def)
  have o: "?opts = (case Some ?opts of None \<Rightarrow> emptyOptions | Some opts \<Rightarrow> opts)" by simp
  have ready: "setupCommand (sample_world sample_process) sample_lib ?opts = Inr sample_process \<and>
      createPipes sample_process = None \<and> Start_err sample_process = None \<and>
      stdin_Write sample_process ''hello'' = None"
    by (simp add: setupCommand_def findCLIExecutable_def sample_world_def emptyOptions_def
        createPipes_def sample_process_def)
  have w: "snd (Query (sample_world sample_process) sample_lib int ''hello'' (Some ?opts)) = None"
    by (simp add: query_defs sample_defs)
  from text_output_single_result [OF f c o, of sample_lib int "sample_world sample_process"
      "''hello''"] ready w
  show ?thesis by (simp add: prod_eq_iff)
qed

end
